theory Spec2Isabelle
  imports Main "HOL-Library.Sublist"
begin

section \<open>Text\<close>

text \<open>
  Python strings are modelled as \<open>string\<close>. The texts that decide control flow
  (traits, decision styles, operation names) are compared with ASCII keywords, and the
  model covers ASCII text: \<open>lower\<close> maps the letters \<open>A\<close> to \<open>Z\<close> and
  leaves every other character as it is.
\<close>

definition ascii_uppercase :: string where
  "ascii_uppercase = ''ABCDEFGHIJKLMNOPQRSTUVWXYZ''"

definition ascii_lowercase :: string where
  "ascii_lowercase = ''abcdefghijklmnopqrstuvwxyz''"

definition lower_char :: "char \<Rightarrow> char" where
  "lower_char c =
     (case map_of (zip ascii_uppercase ascii_lowercase) c of
        None \<Rightarrow> c
      | Some l \<Rightarrow> l)"

text \<open>\<^verbatim>\<open>s.lower()\<close>\<close>

definition lower :: "string \<Rightarrow> string" where
  "lower s = map lower_char s"

text \<open>\<^verbatim>\<open>sep.join(parts)\<close>\<close>

fun join :: "string \<Rightarrow> string list \<Rightarrow> string" where
  "join sep [] = []"
| "join sep [x] = x"
| "join sep (x # y # ys) = x @ sep @ join sep (y # ys)"

text \<open>\<^verbatim>\<open>word in text\<close> on strings: \<open>word\<close> occurs in \<open>text\<close> as a substring.\<close>

fun py_in :: "string \<Rightarrow> string \<Rightarrow> bool" where
  "py_in word [] = (word = [])"
| "py_in word (c # cs) = (prefix word (c # cs) \<or> py_in word cs)"

text \<open>\<^verbatim>\<open>any(word in text for word in words)\<close>\<close>

definition any_in :: "string list \<Rightarrow> string \<Rightarrow> bool" where
  "any_in words text = list_ex (\<lambda>word. py_in word text) words"

section \<open>Core configuration\<close>

datatype PersonaType =
    BEAUTY_ENTHUSIAST
  | BUDGET_SHOPPER
  | INDECISIVE_SHOPPER
  | LUXURY_BUYER
  | GIFT_SHOPPER
  | SKINCARE_FOCUSED
  | CUSTOM

record CustomPersona =
  name :: string
  ptype :: PersonaType
  budget_range :: "int \<times> int"
  personality_traits :: "string list"
  interests :: "string list"
  shopping_goals :: "string list"
  decision_style :: string
  time_preference :: string

record LLMTask =
  task_name :: string
  description :: string
  expected_functions :: "string list"
  success_criteria :: string
  emotional_journey :: "string list"

section \<open>Persona classification\<close>

text \<open>
  \<^verbatim>\<open>PersonaCreator._determine_persona_type(traits, decision_style)\<close>: the
  \<^verbatim>\<open>if\<close>/\<^verbatim>\<open>elif\<close> chain over the lower-cased, space-joined traits.
\<close>

definition determine_persona_type :: "string list \<Rightarrow> string \<Rightarrow> PersonaType" where
  "determine_persona_type traits decision_style_arg =
     (let trait_text = lower (join '' '' traits) in
      if any_in [''budget'', ''cheap'', ''affordable'', ''price''] trait_text
        then BUDGET_SHOPPER
      else if any_in [''luxury'', ''premium'', ''high-end'', ''quality''] trait_text
        then LUXURY_BUYER
      else if any_in [''indecis'', ''uncertain'', ''changeable''] trait_text
        then INDECISIVE_SHOPPER
      else if any_in [''beauty'', ''makeup'', ''trendy'', ''impulsive''] trait_text
        then BEAUTY_ENTHUSIAST
      else if any_in [''skincare'', ''routine'', ''organic''] trait_text
        then SKINCARE_FOCUSED
      else if any_in [''gift'', ''birthday'', ''present''] trait_text
        then GIFT_SHOPPER
      else CUSTOM)"

text \<open>
  The classification as the specification words it: a fixed priority table of keyword
  groups, scanned in order over the lower-cased concatenation of the traits; the first
  group with a keyword occurring in the text gives the category, and \<open>custom\<close> is the
  result when no group matches.
\<close>

definition priority_table :: "(string list \<times> PersonaType) list" where
  "priority_table =
     [([''budget'', ''cheap'', ''affordable'', ''price''], BUDGET_SHOPPER),
      ([''luxury'', ''premium'', ''high-end'', ''quality''], LUXURY_BUYER),
      ([''indecis'', ''uncertain'', ''changeable''], INDECISIVE_SHOPPER),
      ([''beauty'', ''makeup'', ''trendy'', ''impulsive''], BEAUTY_ENTHUSIAST),
      ([''skincare'', ''routine'', ''organic''], SKINCARE_FOCUSED),
      ([''gift'', ''birthday'', ''present''], GIFT_SHOPPER)]"

fun first_match :: "(string list \<times> PersonaType) list \<Rightarrow> string \<Rightarrow> PersonaType" where
  "first_match [] text = CUSTOM"
| "first_match ((words, category) # table) text =
     (if any_in words text then category else first_match table text)"

definition spec_classify :: "string list \<Rightarrow> string \<Rightarrow> PersonaType" where
  "spec_classify traits decision_style_arg =
     first_match priority_table (lower (join '' '' traits))"

section \<open>The page-interaction layer\<close>

text \<open>
  The browser is outside the program. A call into it either returns a value or raises;
  \<open>Raises e\<close> carries the text \<^verbatim>\<open>str(e)\<close> of the exception.
\<close>

datatype 'a outcome = Returns 'a | Raises string

text \<open>
  A product card as \<^verbatim>\<open>extract_products\<close> observes it: the opaque element handle,
  what \<^verbatim>\<open>is_displayed()\<close> answers, the text of the name element (\<open>Raises\<close> when
  the element lookup fails), and the outcome of the price lookup: \<open>Raises\<close> when the
  lookup fails, \<open>Returns None\<close> when the price pattern does not match the text, and
  \<open>Returns (Some n)\<close> when it matches digits that read as the number \<open>n\<close> once the
  commas are removed.
\<close>

record card =
  card_handle :: nat
  is_displayed :: "bool outcome"
  name_text :: "string outcome"
  price_match :: "nat option outcome"

text \<open>
  The browser behind \<^verbatim>\<open>self.driver\<close>, with a state of type \<open>'w\<close> that every call
  may change. Each field stands for the driver calls of one place of the source:
  \<^item> \<open>search_box term\<close>: wait for the search input, clear it, type the term, press return;
  \<^item> \<open>find_product_cards\<close>: \<^verbatim>\<open>find_elements\<close> for the product cards;
  \<^item> \<open>hover_and_click h\<close>: scroll to the element \<open>h\<close>, hover, look for a displayed
    add-to-bag button and click it; \<open>Returns False\<close> when no displayed button exists;
  \<^item> \<open>open_cart\<close>: load the cart page and count its items;
  \<^item> \<open>find_remove_buttons\<close>: the number of remove buttons on the current page;
  \<^item> \<open>click_remove\<close>: click the first of them;
  \<^item> \<open>refresh\<close>: \<^verbatim>\<open>driver.refresh()\<close>;
  \<^item> \<open>random_index\<close>: the random source behind \<^verbatim>\<open>random.choice\<close>.
\<close>

record 'w browser =
  search_box :: "string \<Rightarrow> 'w \<Rightarrow> unit outcome \<times> 'w"
  find_product_cards :: "'w \<Rightarrow> card list outcome \<times> 'w"
  hover_and_click :: "nat \<Rightarrow> 'w \<Rightarrow> bool outcome \<times> 'w"
  open_cart :: "'w \<Rightarrow> nat outcome \<times> 'w"
  find_remove_buttons :: "'w \<Rightarrow> nat outcome \<times> 'w"
  click_remove :: "'w \<Rightarrow> unit outcome \<times> 'w"
  refresh :: "'w \<Rightarrow> unit outcome \<times> 'w"
  random_index :: "'w \<Rightarrow> nat \<times> 'w"

section \<open>The automation engine\<close>

text \<open>An entry of \<^verbatim>\<open>current_products\<close>: a dict with the keys name, price, element, index.\<close>

record product =
  p_name :: string
  p_price :: int
  p_element :: nat
  p_index :: nat

text \<open>
  \<^verbatim>\<open>TiraAutomation\<close>: the browser's state, \<^verbatim>\<open>current_products\<close> and the three
  entries of \<^verbatim>\<open>stats\<close>.
\<close>

record 'w TiraAutomation =
  world :: 'w
  current_products :: "product list"
  actions :: int
  success :: int
  cart_items :: int

text \<open>\<^verbatim>\<open>TiraAutomation.__init__\<close>\<close>

definition init_automation :: "'w \<Rightarrow> 'w TiraAutomation" where
  "init_automation w =
     \<lparr>world = w, current_products = [], actions = 0, success = 0, cart_items = 0\<rparr>"

text \<open>
  The dicts the operations return:
  \<^item> \<open>Succeeded\<close>: \<^verbatim>\<open>{'success': True}\<close>;
  \<^item> \<open>Failed e\<close>: \<^verbatim>\<open>{'success': False, 'error': e}\<close>;
  \<^item> \<open>Products ps n\<close>: \<^verbatim>\<open>{'success': True, 'products': ps, 'count': n}\<close>;
  \<^item> \<open>NoProducts\<close>: \<^verbatim>\<open>{'success': False, 'products': [], 'count': 0}\<close>;
  \<^item> \<open>CartItems n\<close>: \<^verbatim>\<open>{'success': True, 'item_count': n}\<close>.
\<close>

datatype result =
    Succeeded
  | Failed string
  | Products "product list" nat
  | NoProducts
  | CartItems nat

text \<open>\<^verbatim>\<open>result.get('success')\<close>\<close>

fun res_success :: "result \<Rightarrow> bool" where
  "res_success Succeeded = True"
| "res_success (Failed e) = False"
| "res_success (Products ps n) = True"
| "res_success NoProducts = False"
| "res_success (CartItems n) = True"

text \<open>\<^verbatim>\<open>result.get('error', 'Unknown error')\<close>\<close>

fun res_error :: "result \<Rightarrow> string" where
  "res_error (Failed e) = e"
| "res_error r = ''Unknown error''"

text \<open>\<^verbatim>\<open>TiraAutomation._update_stats\<close>\<close>

definition update_stats :: "bool \<Rightarrow> 'w TiraAutomation \<Rightarrow> 'w TiraAutomation" where
  "update_stats ok a =
     (let a1 = a\<lparr>actions := actions a + 1\<rparr>
      in if ok then a1\<lparr>success := success a1 + 1\<rparr> else a1)"

text \<open>\<^verbatim>\<open>TiraAutomation.search_products\<close>\<close>

definition search_products ::
  "'w browser \<Rightarrow> CustomPersona \<Rightarrow> string \<Rightarrow> 'w TiraAutomation \<Rightarrow> result \<times> 'w TiraAutomation" where
  "search_products b persona search_term a =
     (case search_box b search_term (world a) of
        (Returns u, w) \<Rightarrow> (Succeeded, update_stats True (a\<lparr>world := w\<rparr>))
      | (Raises e, w) \<Rightarrow> (Failed e, update_stats False (a\<lparr>world := w\<rparr>)))"

text \<open>
  \<^verbatim>\<open>[c for c in cards if c.is_displayed()]\<close>: every card is asked, and a card whose
  \<^verbatim>\<open>is_displayed()\<close> raises ends the comprehension with that exception.
\<close>

fun displayed_cards :: "card list \<Rightarrow> card list outcome" where
  "displayed_cards [] = Returns []"
| "displayed_cards (c # cs) =
     (case is_displayed c of
        Raises e \<Rightarrow> Raises e
      | Returns shown \<Rightarrow>
          (case displayed_cards cs of
             Raises e \<Rightarrow> Raises e
           | Returns vs \<Rightarrow> Returns (if shown then c # vs else vs)))"

text \<open>
  The characters \<^verbatim>\<open>str.strip()\<close> removes, among the code points below 256: tab,
  line feed, vertical tab, form feed, carriage return, the four separators \<open>0x1C\<close>
  to \<open>0x1F\<close>, the space, the next-line character \<open>0x85\<close> and the no-break
  space \<open>0xA0\<close>.
\<close>

definition whitespace :: "char list" where
  "whitespace = [CHR 0x09, CHR 0x0A, CHR 0x0B, CHR 0x0C, CHR 0x0D,
                 CHR 0x1C, CHR 0x1D, CHR 0x1E, CHR 0x1F, CHR 0x20,
                 CHR 0x85, CHR 0xA0]"

definition strip :: "string \<Rightarrow> string" where
  "strip s =
     rev (dropWhile (\<lambda>c. c \<in> set whitespace)
       (rev (dropWhile (\<lambda>c. c \<in> set whitespace) s)))"

text \<open>
  The loop \<^verbatim>\<open>for i, card in enumerate(visible_cards)\<close>: a card whose name or price
  lookup raises is skipped (\<^verbatim>\<open>continue\<close>), and keeps its number \<open>i\<close> unused;
  a price text the pattern does not match gives the price 0.
\<close>

fun read_cards :: "nat \<Rightarrow> card list \<Rightarrow> product list" where
  "read_cards i [] = []"
| "read_cards i (c # cs) =
     (case name_text c of
        Raises e \<Rightarrow> read_cards (Suc i) cs
      | Returns t \<Rightarrow>
          (case price_match c of
             Raises e \<Rightarrow> read_cards (Suc i) cs
           | Returns m \<Rightarrow>
               \<lparr>p_name = take 50 (strip t) @ ''...'',
                p_price = (case m of None \<Rightarrow> 0 | Some n \<Rightarrow> int n),
                p_element = card_handle c,
                p_index = i\<rparr> # read_cards (Suc i) cs))"

text \<open>
  Converting a Python int to a float raises \<^verbatim>\<open>OverflowError\<close> when the int
  rounds to a value beyond the largest double, that is from \<open>2^1024 - 2^970\<close> on
  in absolute value.
\<close>

definition float_overflow :: "int \<Rightarrow> bool" where
  "float_overflow n = (2 ^ 1024 - 2 ^ 970 \<le> \<bar>n\<bar>)"

text \<open>
  \<^verbatim>\<open>TiraAutomation.extract_products\<close>. No path of the method calls
  \<^verbatim>\<open>_update_stats\<close>. After \<^verbatim>\<open>current_products\<close> is replaced, the persona selects
  the commentary that is printed. For a price-focused persona and a non-empty list of
  products the commentary computes \<^verbatim>\<open>persona.budget_range[1] * 0.7\<close>, which raises
  when the bound does not fit a float: the handler of the method then returns the
  failure dict, with the new \<^verbatim>\<open>current_products\<close> in place.
\<close>

definition extract_products ::
  "'w browser \<Rightarrow> CustomPersona option \<Rightarrow> 'w TiraAutomation \<Rightarrow> result \<times> 'w TiraAutomation" where
  "extract_products b persona a =
     (case find_product_cards b (world a) of
        (Raises e, w) \<Rightarrow> (NoProducts, a\<lparr>world := w\<rparr>)
      | (Returns cards, w) \<Rightarrow>
          (case displayed_cards cards of
             Raises e \<Rightarrow> (NoProducts, a\<lparr>world := w\<rparr>)
           | Returns shown \<Rightarrow>
               (let products = read_cards 0 (take 6 shown);
                    a1 = a\<lparr>world := w, current_products := products\<rparr>
                in (case persona of
                      None \<Rightarrow> (Products products (length products), a1)
                    | Some pers \<Rightarrow>
                        if products = [] then (Products products (length products), a1)
                        else if decision_style pers = ''price_focused'' then
                          (if float_overflow (snd (budget_range pers)) then (NoProducts, a1)
                           else (Products products (length products), a1))
                        else (Products products (length products), a1)))))"

text \<open>
  \<^verbatim>\<open>xs[i]\<close> on a Python list: a negative index counts from the end, and an index
  outside \<open>-len(xs) \<le> i < len(xs)\<close> raises \<^verbatim>\<open>IndexError\<close> (\<open>None\<close>).
\<close>

definition py_index :: "'a list \<Rightarrow> int \<Rightarrow> 'a option" where
  "py_index xs i =
     (if 0 \<le> i \<and> i < int (length xs) then Some (xs ! nat i)
      else if i < 0 \<and> - int (length xs) \<le> i then Some (xs ! nat (int (length xs) + i))
      else None)"

text \<open>\<^verbatim>\<open>TiraAutomation.hover_add_to_cart\<close>\<close>

definition hover_add_to_cart ::
  "'w browser \<Rightarrow> CustomPersona \<Rightarrow> int \<Rightarrow> 'w TiraAutomation \<Rightarrow> result \<times> 'w TiraAutomation" where
  "hover_add_to_cart b persona product_index a =
     (if current_products a = [] \<or> product_index \<ge> int (length (current_products a))
      then (Failed ''Invalid product index'', a)
      else
        (case py_index (current_products a) product_index of
           None \<Rightarrow> (Failed ''list index out of range'', update_stats False a)
         | Some product \<Rightarrow>
             if p_price product > snd (budget_range persona)
             then (Failed ''Over budget'', a)
             else
               (case hover_and_click b (p_element product) (world a) of
                  (Raises e, w) \<Rightarrow> (Failed e, update_stats False (a\<lparr>world := w\<rparr>))
                | (Returns False, w) \<Rightarrow>
                    (Failed ''No add button found'', update_stats False (a\<lparr>world := w\<rparr>))
                | (Returns True, w) \<Rightarrow>
                    (Succeeded,
                     update_stats True (a\<lparr>world := w, cart_items := cart_items a + 1\<rparr>)))))"

text \<open>\<^verbatim>\<open>TiraAutomation.view_cart\<close>\<close>

definition view_cart ::
  "'w browser \<Rightarrow> CustomPersona \<Rightarrow> 'w TiraAutomation \<Rightarrow> result \<times> 'w TiraAutomation" where
  "view_cart b persona a =
     (case open_cart b (world a) of
        (Returns item_count, w) \<Rightarrow> (CartItems item_count, update_stats True (a\<lparr>world := w\<rparr>))
      | (Raises e, w) \<Rightarrow> (Failed e, update_stats False (a\<lparr>world := w\<rparr>)))"

text \<open>\<^verbatim>\<open>TiraAutomation.remove_from_cart\<close>\<close>

definition remove_from_cart ::
  "'w browser \<Rightarrow> CustomPersona \<Rightarrow> 'w TiraAutomation \<Rightarrow> result \<times> 'w TiraAutomation" where
  "remove_from_cart b persona a =
     (case find_remove_buttons b (world a) of
        (Raises e, w) \<Rightarrow> (Failed e, update_stats False (a\<lparr>world := w\<rparr>))
      | (Returns remove_btns, w) \<Rightarrow>
          if remove_btns > 0
          then
            (case click_remove b w of
               (Raises e, w') \<Rightarrow> (Failed e, update_stats False (a\<lparr>world := w'\<rparr>))
             | (Returns u, w') \<Rightarrow>
                 (Succeeded,
                  update_stats True
                    (a\<lparr>world := w', cart_items := max 0 (cart_items a - 1)\<rparr>)))
          else (Failed ''No items to remove'', a\<lparr>world := w\<rparr>))"

text \<open>\<^verbatim>\<open>TiraAutomation.complete_session\<close>: prints and returns.\<close>

definition complete_session ::
  "CustomPersona \<Rightarrow> 'w TiraAutomation \<Rightarrow> result \<times> 'w TiraAutomation" where
  "complete_session persona a = (Succeeded, a)"

section \<open>Task generation\<close>

text \<open>
  What \<^verbatim>\<open>_llm_generate_tasks\<close> gets out of the text-generation call, after the
  pattern search and \<^verbatim>\<open>json.loads\<close>:
  \<^item> \<open>NoJsonObject\<close>: the call returned a text in which the pattern finds no
    \<open>{...}\<close>;
  \<^item> \<open>LLMFailed e\<close>: an exception inside the \<^verbatim>\<open>try\<close> block (the call itself,
    \<^verbatim>\<open>json.loads\<close>, or a value of the wrong shape);
  \<^item> \<open>JsonTasks tds\<close>: a JSON object whose \<^verbatim>\<open>tasks\<close> entry (the empty list when
    the key is missing) is the list \<open>tds\<close> of objects. A field of such an object is
    \<open>None\<close> when its key is missing.
\<close>

record task_data =
  td_task_name :: "string option"
  td_description :: "string option"
  td_expected_functions :: "string list option"
  td_success_criteria :: "string option"
  td_emotional_journey :: "string list option"

datatype llm_reply = NoJsonObject | LLMFailed string | JsonTasks "task_data list"

text \<open>\<^verbatim>\<open>d.get(key, default)\<close>\<close>

definition get_default :: "'a option \<Rightarrow> 'a \<Rightarrow> 'a" where
  "get_default v d = (case v of None \<Rightarrow> d | Some x \<Rightarrow> x)"

text \<open>The \<^verbatim>\<open>LLMTask(...)\<close> built from one entry of the reply.\<close>

definition task_of_data :: "task_data \<Rightarrow> LLMTask" where
  "task_of_data td =
     \<lparr>task_name = get_default (td_task_name td) ''Shopping Task'',
      description = get_default (td_description td) ''Complete shopping goal'',
      expected_functions = get_default (td_expected_functions td) [''search_products''],
      success_criteria = get_default (td_success_criteria td) ''Task completed'',
      emotional_journey = get_default (td_emotional_journey td) [''curious'']\<rparr>"

text \<open>
  \<^verbatim>\<open>TaskGenerationEngine._rule_generate_tasks\<close>. Both branches format
  \<^verbatim>\<open>persona.interests[0]\<close> into the description, which raises \<^verbatim>\<open>IndexError\<close>
  on an empty list (\<open>Inl\<close>, with the exception's text).
\<close>

definition rule_generate_tasks :: "CustomPersona \<Rightarrow> string + LLMTask list" where
  "rule_generate_tasks persona =
     (case interests persona of
        [] \<Rightarrow> Inl ''list index out of range''
      | interest # others \<Rightarrow>
          Inr
            ((if decision_style persona = ''quick_impulsive''
              then
                [\<lparr>task_name = ''Quick Product Discovery'',
                  description = ''Find and quickly purchase '' @ interest @ '' items'',
                  expected_functions =
                    [''search_products'', ''extract_products'', ''hover_add_to_cart''],
                  success_criteria = ''At least 1 item added to cart'',
                  emotional_journey = [''excited'', ''satisfied'']\<rparr>]
              else
                [\<lparr>task_name = ''Careful Product Research'',
                  description = ''Research '' @ interest @ '' options thoroughly'',
                  expected_functions =
                    [''search_products'', ''extract_products'', ''click_product_details''],
                  success_criteria = ''Product details examined'',
                  emotional_journey = [''curious'', ''confident'']\<rparr>])
             @
             (if py_in ''budget'' (lower (join '' '' (personality_traits persona)))
              then
                [\<lparr>task_name = ''Budget-Conscious Shopping'',
                  description = ''Find affordable options within budget constraints'',
                  expected_functions = [''search_products'', ''view_cart''],
                  success_criteria = ''Stay within budget limits'',
                  emotional_journey = [''cautious'', ''satisfied'']\<rparr>]
              else [])))"

text \<open>
  \<^verbatim>\<open>TaskGenerationEngine._llm_generate_tasks\<close>. The client is the configured
  text-generation capability: it answers the prompt, which is built from the persona.
\<close>

definition llm_generate_tasks ::
  "(CustomPersona \<Rightarrow> llm_reply) \<Rightarrow> CustomPersona \<Rightarrow> string + LLMTask list" where
  "llm_generate_tasks openai_client persona =
     (case openai_client persona of
        JsonTasks tds \<Rightarrow> Inr (map task_of_data tds)
      | NoJsonObject \<Rightarrow> rule_generate_tasks persona
      | LLMFailed e \<Rightarrow> rule_generate_tasks persona)"

text \<open>
  \<^verbatim>\<open>TaskGenerationEngine.generate_shopping_tasks\<close>; \<open>available\<close> is the module's
  flag \<^verbatim>\<open>OPENAI_AVAILABLE\<close>.
\<close>

definition generate_shopping_tasks ::
  "(CustomPersona \<Rightarrow> llm_reply) option \<Rightarrow> bool \<Rightarrow> CustomPersona \<Rightarrow> string + LLMTask list" where
  "generate_shopping_tasks openai_client available persona =
     (case openai_client of
        Some client \<Rightarrow>
          if available then llm_generate_tasks client persona
          else rule_generate_tasks persona
      | None \<Rightarrow> rule_generate_tasks persona)"

section \<open>The orchestrator\<close>

text \<open>
  \<^verbatim>\<open>random.choice(seq)\<close>: \<^verbatim>\<open>IndexError\<close> on an empty sequence, otherwise the
  element at the index the random source draws, reduced to the range of the sequence.
\<close>

definition random_choice :: "'w browser \<Rightarrow> string list \<Rightarrow> 'w \<Rightarrow> string outcome \<times> 'w" where
  "random_choice b seq w =
     (if seq = [] then (Raises ''Cannot choose from an empty sequence'', w)
      else (case random_index b w of (i, w') \<Rightarrow> (Returns (seq ! (i mod length seq)), w')))"

text \<open>\<^verbatim>\<open>InteractiveDemo._get_intelligent_search_term\<close>\<close>

definition get_intelligent_search_term ::
  "'w browser \<Rightarrow> CustomPersona \<Rightarrow> 'w \<Rightarrow> string outcome \<times> 'w" where
  "get_intelligent_search_term b persona w =
     (let combined_interests = interests persona @ shopping_goals persona;
          pre =
            (if decision_style persona = ''price_focused'' then ''affordable ''
             else if ptype persona = LUXURY_BUYER then ''premium ''
             else if py_in ''trending'' (lower (join '' '' (personality_traits persona)))
               then ''trending ''
             else [])
      in (case random_choice b combined_interests w of
            (Raises e, w') \<Rightarrow> (Raises e, w')
          | (Returns chosen, w') \<Rightarrow> (Returns (pre @ chosen), w')))"

text \<open>
  What \<^verbatim>\<open>_execute_task\<close> prints: the line before each dispatch, the line for a
  result without success, the line of the exception handler.
\<close>

datatype event =
    Executing string
  | FunctionFailed string string
  | TaskExecutionFailed string

text \<open>
  One pass through the body of the loop of \<^verbatim>\<open>_execute_task\<close>, up to the point where
  \<open>result\<close> is bound:
  \<^item> \<open>Dispatched r a\<close>: an operation was called and returned \<open>r\<close>;
  \<^item> \<open>Completed a\<close>: \<^verbatim>\<open>complete_session\<close> was called (\<^verbatim>\<open>break\<close> follows);
  \<^item> \<open>Skipped\<close>: no branch matches the name (\<^verbatim>\<open>continue\<close>);
  \<^item> \<open>Raised e a\<close>: an exception reached the handler of the loop (\<^verbatim>\<open>break\<close> follows).
\<close>

datatype 'w dispatched =
    Dispatched result "'w TiraAutomation"
  | Completed "'w TiraAutomation"
  | Skipped
  | Raised string "'w TiraAutomation"

definition dispatch ::
  "'w browser \<Rightarrow> CustomPersona \<Rightarrow> string \<Rightarrow> 'w TiraAutomation \<Rightarrow> 'w dispatched" where
  "dispatch b persona function_name a =
     (if function_name = ''search_products'' then
        (case get_intelligent_search_term b persona (world a) of
           (Raises e, w) \<Rightarrow> Raised e (a\<lparr>world := w\<rparr>)
         | (Returns search_term, w) \<Rightarrow>
             (case search_products b persona search_term (a\<lparr>world := w\<rparr>) of
                (r, a') \<Rightarrow> Dispatched r a'))
      else if function_name = ''extract_products'' then
        (case extract_products b (Some persona) a of (r, a') \<Rightarrow> Dispatched r a')
      else if function_name = ''hover_add_to_cart'' then
        (case hover_add_to_cart b persona 0 a of (r, a') \<Rightarrow> Dispatched r a')
      else if function_name = ''view_cart'' then
        (case view_cart b persona a of (r, a') \<Rightarrow> Dispatched r a')
      else if function_name = ''remove_from_cart'' then
        (case remove_from_cart b persona a of (r, a') \<Rightarrow> Dispatched r a')
      else if function_name = ''complete_session'' then
        (case complete_session persona a of (r, a') \<Rightarrow> Completed a')
      else Skipped)"

text \<open>The report after a dispatch: \<^verbatim>\<open>if not result.get('success'): print(...)\<close>.\<close>

definition report :: "string \<Rightarrow> result \<Rightarrow> event list" where
  "report function_name r =
     (if res_success r then [] else [FunctionFailed function_name (res_error r)])"

text \<open>
  \<^verbatim>\<open>InteractiveDemo._execute_task\<close>, on the list \<^verbatim>\<open>task.expected_functions\<close>:
  the automation after the loop and what the loop printed.
\<close>

fun execute_task ::
  "'w browser \<Rightarrow> CustomPersona \<Rightarrow> string list \<Rightarrow> 'w TiraAutomation
     \<Rightarrow> 'w TiraAutomation \<times> event list" where
  "execute_task b persona [] a = (a, [])"
| "execute_task b persona (function_name # rest) a =
     (case dispatch b persona function_name a of
        Dispatched r a' \<Rightarrow>
          (case execute_task b persona rest a' of
             (a'', out) \<Rightarrow> (a'', Executing function_name # report function_name r @ out))
      | Completed a' \<Rightarrow> (a', [Executing function_name])
      | Skipped \<Rightarrow>
          (case execute_task b persona rest a of
             (a'', out) \<Rightarrow> (a'', Executing function_name # out))
      | Raised e a' \<Rightarrow> (a', [Executing function_name, TaskExecutionFailed e]))"

text \<open>
  The task loop of \<^verbatim>\<open>InteractiveDemo.run_interactive_session\<close>: each task is
  executed, and the browser is refreshed after every task but the last. The refresh is
  outside every handler: an exception it raises ends the session (\<open>Inl\<close>).
\<close>

fun run_tasks ::
  "'w browser \<Rightarrow> CustomPersona \<Rightarrow> LLMTask list \<Rightarrow> 'w TiraAutomation
     \<Rightarrow> string + ('w TiraAutomation \<times> event list)" where
  "run_tasks b persona [] a = Inr (a, [])"
| "run_tasks b persona (task # rest) a =
     (case execute_task b persona (expected_functions task) a of
        (a1, out1) \<Rightarrow>
          if rest = [] then Inr (a1, out1)
          else
            (case refresh b (world a1) of
               (Raises e, w) \<Rightarrow> Inl e
             | (Returns u, w) \<Rightarrow>
                 (case run_tasks b persona rest (a1\<lparr>world := w\<rparr>) of
                    Inl e \<Rightarrow> Inl e
                  | Inr (a2, out2) \<Rightarrow> Inr (a2, out1 @ out2))))"

section \<open>Observers and test doubles\<close>

text \<open>
  The number of operations one run of the loop of \<^verbatim>\<open>_execute_task\<close> dispatches:
  the passes in which an operation of the automation is called. A skipped name is not
  counted, nor is a pass that raises before the operation is called.
\<close>

fun dispatched_count ::
  "'w browser \<Rightarrow> CustomPersona \<Rightarrow> string list \<Rightarrow> 'w TiraAutomation \<Rightarrow> nat" where
  "dispatched_count b persona [] a = 0"
| "dispatched_count b persona (function_name # rest) a =
     (case dispatch b persona function_name a of
        Dispatched r a' \<Rightarrow> Suc (dispatched_count b persona rest a')
      | Completed a' \<Rightarrow> Suc 0
      | Skipped \<Rightarrow> dispatched_count b persona rest a
      | Raised e a' \<Rightarrow> 0)"

text \<open>The names of the operations the loop printed as being executed.\<close>

fun executed_names :: "event list \<Rightarrow> string list" where
  "executed_names [] = []"
| "executed_names (Executing f # es) = f # executed_names es"
| "executed_names (e # es) = executed_names es"

text \<open>
  A page-interaction layer for tests, without a state of its own: every call succeeds,
  the page shows the given cards and the given number of remove buttons, a displayed
  add-to-bag button is always found, and the random source always draws 0.
\<close>

definition mock_browser :: "card list \<Rightarrow> nat \<Rightarrow> unit browser" where
  "mock_browser cards buttons =
     \<lparr>search_box = (\<lambda>search_term w. (Returns (), w)),
      find_product_cards = (\<lambda>w. (Returns cards, w)),
      hover_and_click = (\<lambda>h w. (Returns True, w)),
      open_cart = (\<lambda>w. (Returns buttons, w)),
      find_remove_buttons = (\<lambda>w. (Returns buttons, w)),
      click_remove = (\<lambda>w. (Returns (), w)),
      refresh = (\<lambda>w. (Returns (), w)),
      random_index = (\<lambda>w. (0, w))\<rparr>"

text \<open>A displayed card whose price text reads as the given amount.\<close>

definition priced_card :: "nat \<Rightarrow> card" where
  "priced_card amount =
     \<lparr>card_handle = 0,
      is_displayed = Returns True,
      name_text = Returns ''Matte Lipstick'',
      price_match = Returns (Some amount)\<rparr>"

text \<open>
  The persona of the end-to-end scenario: quick-impulsive, budget 500 to 5000, the one
  interest lipstick. The fields the scenario leaves open take the defaults of
  \<^verbatim>\<open>create_custom_persona\<close>.
\<close>

definition lipstick_persona :: CustomPersona where
  "lipstick_persona =
     \<lparr>name = ''CustomShopper'',
      ptype = determine_persona_type [''curious'', ''practical''] ''quick_impulsive'',
      budget_range = (500, 5000),
      personality_traits = [''curious'', ''practical''],
      interests = [''lipstick''],
      shopping_goals = [''explore products''],
      decision_style = ''quick_impulsive'',
      time_preference = ''normal''\<rparr>"

text \<open>The entry of \<^verbatim>\<open>current_products\<close> read from \<open>priced_card amount\<close>.\<close>

definition priced_product :: "nat \<Rightarrow> product" where
  "priced_product amount =
     \<lparr>p_name = ''Matte Lipstick...'', p_price = int amount, p_element = 0, p_index = 0\<rparr>"

text \<open>
  The automation of a fresh session after one extraction from a page that shows one
  card of the given price.
\<close>

definition shelf :: "nat \<Rightarrow> unit TiraAutomation" where
  "shelf amount =
     snd (extract_products (mock_browser [priced_card amount] 0) None (init_automation ()))"

text \<open>
  The number of operations the task loop of a session dispatches, over all its tasks.
\<close>

fun session_dispatched_count ::
  "'w browser \<Rightarrow> CustomPersona \<Rightarrow> LLMTask list \<Rightarrow> 'w TiraAutomation \<Rightarrow> nat" where
  "session_dispatched_count b persona [] a = 0"
| "session_dispatched_count b persona (task # rest) a =
     dispatched_count b persona (expected_functions task) a +
     (if rest = [] then 0
      else
        (case refresh b (world (fst (execute_task b persona (expected_functions task) a))) of
           (Raises e, w) \<Rightarrow> 0
         | (Returns u, w) \<Rightarrow>
             session_dispatched_count b persona rest
               ((fst (execute_task b persona (expected_functions task) a))\<lparr>world := w\<rparr>)))"

text \<open>
  The passes of the loop whose operation is counted as an attempt: every search and
  every view-cart; a quick-add (the loop always asks for the index 0) that passes the
  index check and the budget gate; a remove-from-cart unless the lookup returns no
  remove button. Extract and complete-session are never counted.
\<close>

definition counted :: "'w browser \<Rightarrow> CustomPersona \<Rightarrow> string \<Rightarrow> 'w TiraAutomation \<Rightarrow> bool" where
  "counted b persona function_name a =
     (if function_name = ''search_products'' then True
      else if function_name = ''view_cart'' then True
      else if function_name = ''hover_add_to_cart'' then
        (case current_products a of
           [] \<Rightarrow> False
         | product # others \<Rightarrow> p_price product \<le> snd (budget_range persona))
      else if function_name = ''remove_from_cart'' then
        fst (find_remove_buttons b (world a)) \<noteq> Returns 0
      else False)"

text \<open>The number of counted passes in one run of the loop of \<^verbatim>\<open>_execute_task\<close>.\<close>

fun counted_count ::
  "'w browser \<Rightarrow> CustomPersona \<Rightarrow> string list \<Rightarrow> 'w TiraAutomation \<Rightarrow> nat" where
  "counted_count b persona [] a = 0"
| "counted_count b persona (function_name # rest) a =
     (case dispatch b persona function_name a of
        Dispatched r a' \<Rightarrow>
          (if counted b persona function_name a then 1 else 0)
          + counted_count b persona rest a'
      | Completed a' \<Rightarrow> 0
      | Skipped \<Rightarrow> counted_count b persona rest a
      | Raised e a' \<Rightarrow> 0)"

text \<open>
  A page-interaction layer for tests on which every call into the browser raises; the
  random source draws 0.
\<close>

definition failing_browser :: "unit browser" where
  "failing_browser =
     \<lparr>search_box = (\<lambda>search_term w. (Raises ''timeout'', w)),
      find_product_cards = (\<lambda>w. (Raises ''timeout'', w)),
      hover_and_click = (\<lambda>h w. (Raises ''timeout'', w)),
      open_cart = (\<lambda>w. (Raises ''timeout'', w)),
      find_remove_buttons = (\<lambda>w. (Raises ''timeout'', w)),
      click_remove = (\<lambda>w. (Raises ''timeout'', w)),
      refresh = (\<lambda>w. (Raises ''timeout'', w)),
      random_index = (\<lambda>w. (0, w))\<rparr>"

section \<open>Classification\<close>

text \<open>
  C9. The classification does not depend on the decision style: for every list of
  traits and any two decision styles the result is the same, although the function
  takes the decision style as an argument.
\<close>

theorem classification_ignores_decision_style:
  "determine_persona_type traits d1 = determine_persona_type traits d2"
  by (simp add: determine_persona_type_def)

text \<open>
  C6. The classification is a function of the lower-cased concatenation of the traits
  that scans the keyword groups in the fixed order budget, luxury, indecisiveness,
  beauty and trend, skincare, gift, and answers custom when none matches: it agrees
  with the first match in the priority table. The traits budget and luxury, in either
  order, classify as budget shopper.
\<close>

theorem classification_priority_order:
  "determine_persona_type traits d = spec_classify traits d
   \<and> determine_persona_type [''budget'', ''luxury''] d = BUDGET_SHOPPER
   \<and> determine_persona_type [''luxury'', ''budget''] d = BUDGET_SHOPPER
   \<and> determine_persona_type [''luxury''] d = LUXURY_BUYER"
proof -
  have "determine_persona_type traits d = spec_classify traits d"
    by (simp add: determine_persona_type_def spec_classify_def priority_table_def)
  moreover have "determine_persona_type [''budget'', ''luxury''] d = BUDGET_SHOPPER"
    by (simp add: determine_persona_type_def lower_def lower_char_def any_in_def
        ascii_uppercase_def ascii_lowercase_def)
  moreover have "determine_persona_type [''luxury'', ''budget''] d = BUDGET_SHOPPER"
    by (simp add: determine_persona_type_def lower_def lower_char_def any_in_def
        ascii_uppercase_def ascii_lowercase_def)
  moreover have "determine_persona_type [''luxury''] d = LUXURY_BUYER"
    by (simp add: determine_persona_type_def lower_def lower_char_def any_in_def
        ascii_uppercase_def ascii_lowercase_def)
  ultimately show ?thesis by blast
qed

section \<open>The counters\<close>

lemma update_stats_fields:
  "actions (update_stats ok a) = actions a + 1"
  "success (update_stats ok a) = success a + (if ok then 1 else 0)"
  "cart_items (update_stats ok a) = cart_items a"
  "current_products (update_stats ok a) = current_products a"
  "world (update_stats ok a) = world a"
  by (simp_all add: update_stats_def Let_def)

lemma search_products_counters:
  "search_products b p t a = (r, a') \<Longrightarrow>
     actions a' = actions a + 1
     \<and> success a' = success a + (if res_success r then 1 else 0)
     \<and> cart_items a' = cart_items a"
  by (auto simp: search_products_def update_stats_fields split: prod.splits outcome.splits)

lemma view_cart_counters:
  "view_cart b p a = (r, a') \<Longrightarrow>
     actions a' = actions a + 1
     \<and> success a' = success a + (if res_success r then 1 else 0)
     \<and> cart_items a' = cart_items a"
  by (auto simp: view_cart_def update_stats_fields split: prod.splits outcome.splits)

lemma extract_products_counters:
  "extract_products b po a = (r, a') \<Longrightarrow>
     actions a' = actions a \<and> success a' = success a \<and> cart_items a' = cart_items a"
  by (auto simp: extract_products_def Let_def
      split: prod.splits outcome.splits option.splits if_splits)

lemma hover_add_to_cart_counters:
  "hover_add_to_cart b p i a = (r, a') \<Longrightarrow>
     actions a \<le> actions a' \<and> actions a' \<le> actions a + 1
     \<and> success a' = success a + (if res_success r then 1 else 0)
     \<and> success a' - success a \<le> actions a' - actions a
     \<and> cart_items a' = cart_items a + (if res_success r then 1 else 0)"
  by (auto simp: hover_add_to_cart_def update_stats_fields
      split: prod.splits outcome.splits option.splits if_splits bool.splits)

lemma hover_add_to_cart_attempts:
  "hover_add_to_cart b p i a = (r, a') \<Longrightarrow>
     (if current_products a = [] \<or> int (length (current_products a)) \<le> i
      then r = Failed ''Invalid product index'' \<and> a' = a
      else if (case py_index (current_products a) i of
                 None \<Rightarrow> False
               | Some product \<Rightarrow> snd (budget_range p) < p_price product)
      then r = Failed ''Over budget'' \<and> a' = a
      else actions a' = actions a + 1)"
  by (auto simp: hover_add_to_cart_def update_stats_fields
      split: prod.splits outcome.splits option.splits if_splits bool.splits)

lemma remove_from_cart_counters:
  "remove_from_cart b p a = (r, a') \<Longrightarrow>
     actions a \<le> actions a' \<and> actions a' \<le> actions a + 1
     \<and> success a' = success a + (if res_success r then 1 else 0)
     \<and> success a' - success a \<le> actions a' - actions a
     \<and> cart_items a' = (if res_success r then max 0 (cart_items a - 1) else cart_items a)"
  by (auto simp: remove_from_cart_def update_stats_fields
      split: prod.splits outcome.splits if_splits)

lemma remove_from_cart_attempts:
  "remove_from_cart b p a = (r, a') \<Longrightarrow>
     (if fst (find_remove_buttons b (world a)) = Returns 0
      then r = Failed ''No items to remove'' \<and> actions a' = actions a
      else actions a' = actions a + 1)"
  by (auto simp: remove_from_cart_def update_stats_fields
      split: prod.splits outcome.splits if_splits)

lemma dispatch_counters:
  "dispatch b p f a = Dispatched r a' \<Longrightarrow>
     actions a \<le> actions a' \<and> actions a' \<le> actions a + 1
     \<and> success a \<le> success a' \<and> success a' - success a \<le> actions a' - actions a"
  unfolding dispatch_def
  by (auto split: if_splits prod.splits outcome.splits
      dest!: search_products_counters view_cart_counters extract_products_counters
             hover_add_to_cart_counters remove_from_cart_counters)

lemma dispatch_success:
  "dispatch b p f a = Dispatched r a' \<Longrightarrow> \<not> res_success r \<Longrightarrow> success a' = success a"
  unfolding dispatch_def
  by (auto split: if_splits prod.splits outcome.splits
      dest!: search_products_counters view_cart_counters extract_products_counters
             hover_add_to_cart_counters remove_from_cart_counters)

lemma hover_first_counted:
  "hover_add_to_cart b p 0 a = (r, a') \<Longrightarrow>
     actions a' = actions a + (if counted b p ''hover_add_to_cart'' a then 1 else 0)"
  by (cases "current_products a")
     (auto simp: hover_add_to_cart_def counted_def py_index_def update_stats_fields
       split: prod.splits outcome.splits bool.splits if_splits)

lemma remove_counted:
  "remove_from_cart b p a = (r, a') \<Longrightarrow>
     actions a' = actions a + (if counted b p ''remove_from_cart'' a then 1 else 0)"
  by (auto simp: remove_from_cart_def counted_def update_stats_fields
      split: prod.splits outcome.splits if_splits)

lemma dispatch_attempts:
  assumes "dispatch b p f a = Dispatched r a'"
  shows "actions a' = actions a + (if counted b p f a then 1 else 0)"
proof -
  consider "f = ''search_products''" | "f = ''extract_products''"
    | "f = ''hover_add_to_cart''" | "f = ''view_cart''" | "f = ''remove_from_cart''"
    | "f = ''complete_session''"
    | "f \<noteq> ''search_products''" "f \<noteq> ''extract_products''" "f \<noteq> ''hover_add_to_cart''"
      "f \<noteq> ''view_cart''" "f \<noteq> ''remove_from_cart''" "f \<noteq> ''complete_session''"
    by blast
  then show ?thesis
  proof cases
    case 1
    with assms show ?thesis
      by (auto simp: dispatch_def counted_def split: prod.splits outcome.splits
          dest!: search_products_counters)
  next
    case 2
    with assms show ?thesis
      by (auto simp: dispatch_def counted_def split: prod.splits
          dest!: extract_products_counters)
  next
    case 3
    with assms obtain "hover_add_to_cart b p 0 a = (r, a')"
      by (auto simp: dispatch_def split: prod.splits)
    with 3 show ?thesis
      using hover_first_counted by blast
  next
    case 4
    with assms show ?thesis
      by (auto simp: dispatch_def counted_def split: prod.splits
          dest!: view_cart_counters)
  next
    case 5
    with assms obtain "remove_from_cart b p a = (r, a')"
      by (auto simp: dispatch_def split: prod.splits)
    with 5 show ?thesis
      using remove_counted by blast
  next
    case 6
    with assms show ?thesis
      by (simp add: dispatch_def complete_session_def)
  next
    case 7
    with assms show ?thesis
      by (simp add: dispatch_def)
  qed
qed

lemma dispatch_Completed:
  "dispatch b p f a = Completed a' \<Longrightarrow> a' = a \<and> f = ''complete_session''"
  unfolding dispatch_def
  by (auto split: if_splits prod.splits outcome.splits simp: complete_session_def)

lemma dispatch_Raised:
  "dispatch b p f a = Raised e a' \<Longrightarrow>
     f = ''search_products'' \<and> interests p @ shopping_goals p = []
     \<and> e = ''Cannot choose from an empty sequence'' \<and> a' = a"
  unfolding dispatch_def get_intelligent_search_term_def random_choice_def
  by (auto split: if_splits prod.splits outcome.splits simp: Let_def)

lemma execute_task_counters:
  "execute_task b p fs a = (a', out) \<Longrightarrow>
     actions a' = actions a + int (counted_count b p fs a)
     \<and> counted_count b p fs a \<le> dispatched_count b p fs a
     \<and> success a \<le> success a' \<and> success a' - success a \<le> actions a' - actions a"
proof (induction fs arbitrary: a a' out)
  case Nil
  then show ?case by simp
next
  case (Cons f fs)
  show ?case
  proof (cases "dispatch b p f a")
    case (Dispatched r a1)
    obtain a2 out2 where e: "execute_task b p fs a1 = (a2, out2)" by fastforce
    with Cons.prems Dispatched have "a' = a2" by simp
    with Cons.IH[OF e] dispatch_counters[OF Dispatched] dispatch_attempts[OF Dispatched]
      Dispatched
    show ?thesis
      by simp
  next
    case (Completed a1)
    with Cons.prems dispatch_Completed[OF Completed] show ?thesis by simp
  next
    case Skipped
    obtain a2 out2 where e: "execute_task b p fs a = (a2, out2)" by fastforce
    with Cons.prems Skipped have "a' = a2" by simp
    with Cons.IH[OF e] Skipped show ?thesis by simp
  next
    case (Raised e a1)
    with Cons.prems dispatch_Raised[OF Raised] show ?thesis by simp
  qed
qed

lemma run_tasks_counters:
  "run_tasks b p tasks a = Inr (a', out) \<Longrightarrow>
     actions a \<le> actions a'
     \<and> actions a' \<le> actions a + int (session_dispatched_count b p tasks a)
     \<and> success a \<le> success a' \<and> success a' - success a \<le> actions a' - actions a"
proof (induction tasks arbitrary: a a' out)
  case Nil
  then show ?case by simp
next
  case (Cons t ts)
  obtain a1 out1 where e: "execute_task b p (expected_functions t) a = (a1, out1)"
    by fastforce
  note c1 = execute_task_counters[OF e]
  show ?case
  proof (cases "ts = []")
    case True
    with Cons.prems e c1 show ?thesis by simp
  next
    case False
    obtain x w where rf: "refresh b (world a1) = (x, w)" by fastforce
    from Cons.prems e False rf obtain u where x: "x = Returns u"
      by (cases x) auto
    from Cons.prems e False rf x obtain out2
      where r: "run_tasks b p ts (a1\<lparr>world := w\<rparr>) = Inr (a', out2)"
      by (auto split: sum.splits)
    from Cons.IH[OF r] c1 e False rf x show ?thesis by simp
  qed
qed

text \<open>
  C1, as the code has it. The attempts count the operations that try an interaction
  with the page, not every dispatched operation.
  \<^item> Search and view-cart add exactly 1 to the attempts.
  \<^item> Extract and complete-session leave both counters as they are.
  \<^item> Quick-add adds exactly 1 to the attempts, unless it returns early: with
    \<open>Invalid product index\<close> from the index check or with \<open>Over budget\<close> from the
    budget gate, it leaves the automation as it was.
  \<^item> Remove-from-cart adds exactly 1 to the attempts, unless the lookup returns no
    remove button: it then fails with \<open>No items to remove\<close> and adds nothing.
  \<^item> Search, quick-add, view-cart and remove-from-cart add 1 to the successes if they
    succeeded and nothing otherwise.
  \<^item> After a Task that dispatched \<open>N\<close> operations, the attempts have grown by the
    number of its counted passes, which is at most \<open>N\<close>, and the successes by no more
    than the attempts. Counted from a fresh session, \<open>0 \<le> successes \<le> attempts \<le> N\<close>
    after a Task and after a whole session.
\<close>

theorem counters_invariant:
  "(case search_products b p t a of
      (r, a') \<Rightarrow>
        actions a' = actions a + 1
        \<and> success a' = success a + (if res_success r then 1 else 0))
   \<and> (case view_cart b p a of
      (r, a') \<Rightarrow>
        actions a' = actions a + 1
        \<and> success a' = success a + (if res_success r then 1 else 0))
   \<and> (case extract_products b po a of
      (r, a') \<Rightarrow> actions a' = actions a \<and> success a' = success a)
   \<and> (case complete_session p a of
      (r, a') \<Rightarrow> actions a' = actions a \<and> success a' = success a)
   \<and> (case hover_add_to_cart b p i a of
      (r, a') \<Rightarrow>
        (if current_products a = [] \<or> int (length (current_products a)) \<le> i
         then r = Failed ''Invalid product index'' \<and> a' = a
         else if (case py_index (current_products a) i of
                    None \<Rightarrow> False
                  | Some product \<Rightarrow> snd (budget_range p) < p_price product)
         then r = Failed ''Over budget'' \<and> a' = a
         else actions a' = actions a + 1)
        \<and> success a' = success a + (if res_success r then 1 else 0))
   \<and> (case remove_from_cart b p a of
      (r, a') \<Rightarrow>
        (if fst (find_remove_buttons b (world a)) = Returns 0
         then r = Failed ''No items to remove'' \<and> actions a' = actions a
         else actions a' = actions a + 1)
        \<and> success a' = success a + (if res_success r then 1 else 0))
   \<and> (case execute_task b p fs a of
      (a', out) \<Rightarrow>
        actions a' = actions a + int (counted_count b p fs a)
        \<and> counted_count b p fs a \<le> dispatched_count b p fs a
        \<and> success a \<le> success a'
        \<and> success a' - success a \<le> actions a' - actions a)
   \<and> (case execute_task b p fs (init_automation w) of
      (a', out) \<Rightarrow>
        0 \<le> success a' \<and> success a' \<le> actions a'
        \<and> actions a' \<le> int (dispatched_count b p fs (init_automation w)))
   \<and> (case run_tasks b p tasks (init_automation w) of
        Inl e \<Rightarrow> True
      | Inr (a', out) \<Rightarrow>
          0 \<le> success a' \<and> success a' \<le> actions a'
          \<and> actions a' \<le> int (session_dispatched_count b p tasks (init_automation w)))"
proof -
  have s: "case search_products b p t a of
      (r, a') \<Rightarrow>
        actions a' = actions a + 1
        \<and> success a' = success a + (if res_success r then 1 else 0)"
    using search_products_counters[of b p t a] by (cases "search_products b p t a") simp
  have v: "case view_cart b p a of
      (r, a') \<Rightarrow>
        actions a' = actions a + 1
        \<and> success a' = success a + (if res_success r then 1 else 0)"
    using view_cart_counters[of b p a] by (cases "view_cart b p a") simp
  have x: "case extract_products b po a of
      (r, a') \<Rightarrow> actions a' = actions a \<and> success a' = success a"
    using extract_products_counters[of b po a] by (cases "extract_products b po a") simp
  have c: "case complete_session p a of
      (r, a') \<Rightarrow> actions a' = actions a \<and> success a' = success a"
    by (simp add: complete_session_def)
  have h: "case hover_add_to_cart b p i a of
      (r, a') \<Rightarrow>
        (if current_products a = [] \<or> int (length (current_products a)) \<le> i
         then r = Failed ''Invalid product index'' \<and> a' = a
         else if (case py_index (current_products a) i of
                    None \<Rightarrow> False
                  | Some product \<Rightarrow> snd (budget_range p) < p_price product)
         then r = Failed ''Over budget'' \<and> a' = a
         else actions a' = actions a + 1)
        \<and> success a' = success a + (if res_success r then 1 else 0)"
    using hover_add_to_cart_counters[of b p i a] hover_add_to_cart_attempts[of b p i a]
    by (cases "hover_add_to_cart b p i a") simp
  have r: "case remove_from_cart b p a of
      (r, a') \<Rightarrow>
        (if fst (find_remove_buttons b (world a)) = Returns 0
         then r = Failed ''No items to remove'' \<and> actions a' = actions a
         else actions a' = actions a + 1)
        \<and> success a' = success a + (if res_success r then 1 else 0)"
    using remove_from_cart_counters[of b p a] remove_from_cart_attempts[of b p a]
    by (cases "remove_from_cart b p a") simp
  have l: "case execute_task b p fs a of
      (a', out) \<Rightarrow>
        actions a' = actions a + int (counted_count b p fs a)
        \<and> counted_count b p fs a \<le> dispatched_count b p fs a
        \<and> success a \<le> success a'
        \<and> success a' - success a \<le> actions a' - actions a"
    using execute_task_counters[of b p fs a] by (cases "execute_task b p fs a") simp
  have e: "case execute_task b p fs (init_automation w) of
      (a', out) \<Rightarrow>
        0 \<le> success a' \<and> success a' \<le> actions a'
        \<and> actions a' \<le> int (dispatched_count b p fs (init_automation w))"
    using execute_task_counters[of b p fs "init_automation w"]
    by (cases "execute_task b p fs (init_automation w)") (simp add: init_automation_def)
  have n: "case run_tasks b p tasks (init_automation w) of
        Inl e \<Rightarrow> True
      | Inr (a', out) \<Rightarrow>
          0 \<le> success a' \<and> success a' \<le> actions a'
          \<and> actions a' \<le> int (session_dispatched_count b p tasks (init_automation w))"
    using run_tasks_counters[of b p tasks "init_automation w"]
    by (cases "run_tasks b p tasks (init_automation w)")
       (auto simp: init_automation_def)
  from s v x c h r l e n show ?thesis by blast
qed

text \<open>
  The claim as it was written fails: on a page with one card, a Task that consists of
  the one operation extract dispatches one operation, which succeeds, and leaves the
  attempts and the successes at 0.
\<close>

theorem counters_invariant_counterexample:
  "dispatched_count (mock_browser [priced_card 1200] 0) lipstick_persona
     [''extract_products''] (init_automation ()) = 1
   \<and> res_success
       (fst (extract_products (mock_browser [priced_card 1200] 0) (Some lipstick_persona)
          (init_automation ())))
   \<and> actions (fst (execute_task (mock_browser [priced_card 1200] 0) lipstick_persona
        [''extract_products''] (init_automation ()))) = 0
   \<and> success (fst (execute_task (mock_browser [priced_card 1200] 0) lipstick_persona
        [''extract_products''] (init_automation ()))) = 0"
  by code_simp

section \<open>Quick-add\<close>

lemma py_index_Some: "py_index xs i = Some x \<Longrightarrow> xs \<noteq> [] \<and> i < int (length xs)"
  by (auto simp: py_index_def split: if_splits)

lemma shelf_products: "current_products (shelf amount) = [priced_product amount]"
  by (simp add: shelf_def extract_products_def mock_browser_def priced_card_def
      priced_product_def init_automation_def Let_def strip_def whitespace_def)

lemma shelf_counters:
  "actions (shelf amount) = 0 \<and> success (shelf amount) = 0 \<and> cart_items (shelf amount) = 0"
  by (simp add: shelf_def extract_products_def mock_browser_def priced_card_def
      init_automation_def Let_def)

text \<open>
  C3. The budget gate. When the index selects a product of \<^verbatim>\<open>current_products\<close> whose
  price is strictly above the upper bound of the persona's budget range, quick-add
  returns the failure \<open>Over budget\<close> and leaves the automation, and so the cart
  count, as it was, whatever the browser would do. When the price is within the budget,
  quick-add succeeds exactly when a displayed add button is found and clicked, and then
  the cart count grows by exactly 1; when it does not succeed the cart count is
  unchanged.
\<close>

theorem budget_gate:
  assumes "py_index (current_products a) product_index = Some product"
  shows "(p_price product > snd (budget_range persona) \<longrightarrow>
            hover_add_to_cart b persona product_index a = (Failed ''Over budget'', a))
       \<and> (\<not> p_price product > snd (budget_range persona) \<longrightarrow>
            (case hover_add_to_cart b persona product_index a of
               (r, a') \<Rightarrow>
                 cart_items a' = (if res_success r then cart_items a + 1 else cart_items a)
                 \<and> (res_success r \<longleftrightarrow>
                      fst (hover_and_click b (p_element product) (world a)) = Returns True)))"
  using assms py_index_Some[OF assms]
  by (auto simp: hover_add_to_cart_def update_stats_def Let_def
      split: prod.splits outcome.splits bool.splits)

theorem budget_gate_witness:
  "py_index (current_products (shelf 6000)) 0 = Some (priced_product 6000)
   \<and> hover_add_to_cart (mock_browser [] 0) lipstick_persona 0 (shelf 6000)
       = (Failed ''Over budget'', shelf 6000)
   \<and> py_index (current_products (shelf 1200)) 0 = Some (priced_product 1200)
   \<and> res_success (fst (hover_add_to_cart (mock_browser [] 0) lipstick_persona 0 (shelf 1200)))
   \<and> cart_items (snd (hover_add_to_cart (mock_browser [] 0) lipstick_persona 0 (shelf 1200)))
       = cart_items (shelf 1200) + 1"
proof -
  have dear: "py_index (current_products (shelf 6000)) 0 = Some (priced_product 6000)"
    by (simp add: shelf_products py_index_def)
  have fair: "py_index (current_products (shelf 1200)) 0 = Some (priced_product 1200)"
    by (simp add: shelf_products py_index_def)
  have over: "p_price (priced_product 6000) > snd (budget_range lipstick_persona)"
    by (simp add: priced_product_def lipstick_persona_def)
  have within: "\<not> p_price (priced_product 1200) > snd (budget_range lipstick_persona)"
    by (simp add: priced_product_def lipstick_persona_def)
  have click: "fst (hover_and_click (mock_browser [] 0) (p_element (priced_product 1200))
      (world (shelf 1200))) = Returns True"
    by (simp add: mock_browser_def)
  from budget_gate[OF dear, where persona = lipstick_persona and b = "mock_browser [] 0"] over
  have one: "hover_add_to_cart (mock_browser [] 0) lipstick_persona 0 (shelf 6000)
       = (Failed ''Over budget'', shelf 6000)"
    by blast
  from budget_gate[OF fair, where persona = lipstick_persona and b = "mock_browser [] 0"] within click
  have two: "res_success (fst (hover_add_to_cart (mock_browser [] 0) lipstick_persona 0 (shelf 1200)))
     \<and> cart_items (snd (hover_add_to_cart (mock_browser [] 0) lipstick_persona 0 (shelf 1200)))
       = cart_items (shelf 1200) + 1"
    by (cases "hover_add_to_cart (mock_browser [] 0) lipstick_persona 0 (shelf 1200)") auto
  from dear fair one two show ?thesis by blast
qed

text \<open>
  C10, as the code has it. On a non-empty \<^verbatim>\<open>current_products\<close> of length \<open>n\<close> the
  index check rejects exactly the indices \<open>i \<ge> n\<close>. A negative index is never rejected
  by it. For \<open>-n \<le> i < 0\<close> the operation targets the product at position \<open>n + i\<close>,
  counted from the end as Python does, and goes on as it does for the index \<open>n + i\<close>:
  it fails with \<open>Over budget\<close> when that product is over budget, and otherwise
  succeeds exactly when the add button of that product is found and clicked.
  For \<open>i < -n\<close> the lookup raises \<^verbatim>\<open>IndexError\<close>: no product is targeted, and the
  operation ends as a counted failure with the text of that exception.
\<close>

theorem negative_index:
  assumes "current_products a \<noteq> []"
  shows "(int (length (current_products a)) \<le> product_index \<longrightarrow>
            hover_add_to_cart b persona product_index a = (Failed ''Invalid product index'', a))
       \<and> (- int (length (current_products a)) \<le> product_index \<and> product_index < 0 \<longrightarrow>
            py_index (current_products a) product_index =
              Some (current_products a ! nat (int (length (current_products a)) + product_index))
            \<and> hover_add_to_cart b persona product_index a =
              hover_add_to_cart b persona (int (length (current_products a)) + product_index) a
            \<and> (if snd (budget_range persona)
                    < p_price (current_products a
                        ! nat (int (length (current_products a)) + product_index))
                then hover_add_to_cart b persona product_index a = (Failed ''Over budget'', a)
                else res_success (fst (hover_add_to_cart b persona product_index a))
                     = (fst (hover_and_click b
                          (p_element (current_products a
                             ! nat (int (length (current_products a)) + product_index)))
                          (world a)) = Returns True)))
       \<and> (product_index < - int (length (current_products a)) \<longrightarrow>
            py_index (current_products a) product_index = None
            \<and> hover_add_to_cart b persona product_index a =
              (Failed ''list index out of range'', update_stats False a))"
  using assms
  by (auto simp: hover_add_to_cart_def py_index_def
      split: prod.splits outcome.splits bool.splits)

theorem negative_index_witness:
  "current_products (shelf 1200) \<noteq> []
   \<and> hover_add_to_cart (mock_browser [] 0) lipstick_persona 1 (shelf 1200)
       = (Failed ''Invalid product index'', shelf 1200)
   \<and> py_index (current_products (shelf 1200)) (- 1) = Some (priced_product 1200)
   \<and> hover_add_to_cart (mock_browser [] 0) lipstick_persona (- 1) (shelf 1200)
       = hover_add_to_cart (mock_browser [] 0) lipstick_persona 0 (shelf 1200)
   \<and> hover_add_to_cart (mock_browser [] 0) lipstick_persona (- 2) (shelf 1200)
       = (Failed ''list index out of range'', update_stats False (shelf 1200))"
proof -
  have ne: "current_products (shelf 1200) \<noteq> []"
    by (simp add: shelf_products)
  from negative_index[OF ne, where product_index = 1 and b = "mock_browser [] 0"
         and persona = lipstick_persona]
       negative_index[OF ne, where product_index = "- 1" and b = "mock_browser [] 0"
         and persona = lipstick_persona]
       negative_index[OF ne, where product_index = "- 2" and b = "mock_browser [] 0"
         and persona = lipstick_persona]
  show ?thesis
    by (simp add: shelf_products)
qed

text \<open>
  The claim as it was written fails below \<open>-n\<close>: with one product and the index
  \<open>-2\<close>, Python's indexing selects no product, and the operation is a counted failure.
\<close>

theorem negative_index_counterexample:
  "current_products (shelf 1200) = [priced_product 1200]
   \<and> py_index (current_products (shelf 1200)) (- 2) = None
   \<and> fst (hover_add_to_cart (mock_browser [] 0) lipstick_persona (- 2) (shelf 1200))
       = Failed ''list index out of range''
   \<and> actions (snd (hover_add_to_cart (mock_browser [] 0) lipstick_persona (- 2) (shelf 1200)))
       = actions (shelf 1200) + 1"
  by (simp add: shelf_products py_index_def hover_add_to_cart_def update_stats_def)

section \<open>Remove from cart\<close>

text \<open>
  C8, as the code has it. The page decides whether remove-from-cart fails with
  \<open>No items to remove\<close>, not the cart count. Whenever the page offers no remove
  button, the operation fails with \<open>No items to remove\<close> and leaves the cart count
  and the counters as they were, so the cart count stays at 0 when it was 0. Whenever
  a remove button is found and the click on it returns, the operation succeeds, at a
  cart count of 0 as well, and is counted as a success. In every state the decrement
  is clamped: a removal that succeeds sets the cart count to \<open>max 0 (count - 1)\<close>
  and a failure leaves it unchanged, so a count that is not negative never becomes
  negative, and a count of 0 stays 0.
\<close>

theorem remove_clamped:
  "(\<forall>w. find_remove_buttons b (world a) = (Returns 0, w) \<longrightarrow>
       remove_from_cart b persona a = (Failed ''No items to remove'', a\<lparr>world := w\<rparr>))
   \<and> (\<forall>n w w'. find_remove_buttons b (world a) = (Returns (Suc n), w)
                \<and> click_remove b w = (Returns (), w') \<longrightarrow>
       remove_from_cart b persona a =
         (Succeeded,
          a\<lparr>world := w', cart_items := max 0 (cart_items a - 1),
            actions := actions a + 1, success := success a + 1\<rparr>))
   \<and> (case remove_from_cart b persona a of
        (r, a') \<Rightarrow>
          cart_items a' = (if res_success r then max 0 (cart_items a - 1) else cart_items a)
          \<and> (0 \<le> cart_items a \<longrightarrow> 0 \<le> cart_items a')
          \<and> (cart_items a = 0 \<longrightarrow> cart_items a' = 0))"
  by (auto simp: remove_from_cart_def update_stats_def Let_def
      split: prod.splits outcome.splits)

theorem remove_clamped_witness:
  "find_remove_buttons (mock_browser [] 0) (world (init_automation ())) = (Returns 0, ())
   \<and> remove_from_cart (mock_browser [] 0) lipstick_persona (init_automation ())
       = (Failed ''No items to remove'', init_automation ())
   \<and> find_remove_buttons (mock_browser [] 1) (world (shelf 1200)) = (Returns (Suc 0), ())
   \<and> click_remove (mock_browser [] 1) () = (Returns (), ())
   \<and> remove_from_cart (mock_browser [] 1) lipstick_persona ((shelf 1200)\<lparr>cart_items := 2\<rparr>)
       = (Succeeded, (shelf 1200)\<lparr>cart_items := 1, actions := 1, success := 1\<rparr>)
   \<and> cart_items (snd (remove_from_cart (mock_browser [] 1) lipstick_persona
        (init_automation ()))) = 0"
proof -
  have empty: "cart_items (init_automation ()) = 0"
    by (simp add: init_automation_def)
  have none: "find_remove_buttons (mock_browser [] 0) (world (init_automation ())) = (Returns 0, ())"
    by (simp add: mock_browser_def)
  have some: "find_remove_buttons (mock_browser [] 1) (world (shelf 1200)) = (Returns (Suc 0), ())"
    by (simp add: mock_browser_def)
  have some': "find_remove_buttons (mock_browser [] 1) (world ((shelf 1200)\<lparr>cart_items := 2\<rparr>))
      = (Returns (Suc 0), ())"
    by (simp add: mock_browser_def)
  have click: "click_remove (mock_browser [] 1) () = (Returns (), ())"
    by (simp add: mock_browser_def)
  from remove_clamped[where b = "mock_browser [] 0" and persona = lipstick_persona
      and a = "init_automation ()"] none
  have one: "remove_from_cart (mock_browser [] 0) lipstick_persona (init_automation ())
       = (Failed ''No items to remove'', init_automation ())"
    by (auto simp: init_automation_def)
  from remove_clamped[where b = "mock_browser [] 1" and persona = lipstick_persona
      and a = "(shelf 1200)\<lparr>cart_items := 2\<rparr>"] some' click
  have "remove_from_cart (mock_browser [] 1) lipstick_persona ((shelf 1200)\<lparr>cart_items := 2\<rparr>)
       = (Succeeded,
          (shelf 1200)\<lparr>cart_items := 2\<rparr>
            \<lparr>world := (), cart_items := max 0 (cart_items ((shelf 1200)\<lparr>cart_items := 2\<rparr>) - 1),
             actions := actions ((shelf 1200)\<lparr>cart_items := 2\<rparr>) + 1,
             success := success ((shelf 1200)\<lparr>cart_items := 2\<rparr>) + 1\<rparr>)"
    by blast
  then have two: "remove_from_cart (mock_browser [] 1) lipstick_persona
         ((shelf 1200)\<lparr>cart_items := 2\<rparr>)
       = (Succeeded, (shelf 1200)\<lparr>cart_items := 1, actions := 1, success := 1\<rparr>)"
    by (simp add: shelf_counters)
  from remove_clamped[where b = "mock_browser [] 1" and persona = lipstick_persona
      and a = "init_automation ()"] empty
  have three: "cart_items (snd (remove_from_cart (mock_browser [] 1) lipstick_persona
      (init_automation ()))) = 0"
    by (cases "remove_from_cart (mock_browser [] 1) lipstick_persona (init_automation ())")
       auto
  from none one some click two three show ?thesis by blast
qed

text \<open>
  The claim as it was written fails: in a session whose cart count is 0, on a page
  that offers a remove button, remove-from-cart does not fail. It succeeds, is counted
  as a success, and the clamp keeps the cart count at 0.
\<close>

theorem remove_clamped_counterexample:
  "cart_items (init_automation ()) = 0
   \<and> remove_from_cart (mock_browser [] 1) lipstick_persona (init_automation ())
       = (Succeeded, (init_automation ())\<lparr>actions := 1, success := 1\<rparr>)
   \<and> fst (remove_from_cart (mock_browser [] 1) lipstick_persona (init_automation ()))
       \<noteq> Failed ''No items to remove''"
  by (simp add: remove_from_cart_def mock_browser_def init_automation_def update_stats_def)

section \<open>Task generation\<close>

text \<open>
  C2, as the code has it. For every persona with at least one interest the rule-based
  path returns a non-empty ordered sequence of one or two Tasks, and so does
  \<open>generate\<close> whenever it takes that path: no capability configured, the capability
  not available, a reply without a JSON object, or an exception on the text-generation
  path. On the text-generation path with a parsed reply, \<open>generate\<close> returns one Task
  for each entry of the reply's task list, in the order of the reply: a sequence that
  is non-empty exactly when that list is.
\<close>

theorem generation_nonempty:
  assumes "interests persona \<noteq> []"
  shows "(\<exists>tasks. rule_generate_tasks persona = Inr tasks \<and> tasks \<noteq> [] \<and> length tasks \<le> 2)
       \<and> generate_shopping_tasks None available persona = rule_generate_tasks persona
       \<and> generate_shopping_tasks (Some client) False persona = rule_generate_tasks persona
       \<and> (client persona = NoJsonObject \<or> (\<exists>e. client persona = LLMFailed e) \<longrightarrow>
            generate_shopping_tasks (Some client) True persona = rule_generate_tasks persona)
       \<and> (\<forall>tds. client persona = JsonTasks tds \<longrightarrow>
            generate_shopping_tasks (Some client) True persona = Inr (map task_of_data tds)
            \<and> (map task_of_data tds \<noteq> [] \<longleftrightarrow> tds \<noteq> []))"
proof -
  from assms obtain interest others where i: "interests persona = interest # others"
    by (cases "interests persona") auto
  have "\<exists>tasks. rule_generate_tasks persona = Inr tasks \<and> tasks \<noteq> [] \<and> length tasks \<le> 2"
    by (simp add: rule_generate_tasks_def i)
  moreover have "generate_shopping_tasks None available persona = rule_generate_tasks persona"
    by (simp add: generate_shopping_tasks_def)
  moreover have "generate_shopping_tasks (Some client) False persona = rule_generate_tasks persona"
    by (simp add: generate_shopping_tasks_def)
  moreover have "client persona = NoJsonObject \<or> (\<exists>e. client persona = LLMFailed e) \<longrightarrow>
      generate_shopping_tasks (Some client) True persona = rule_generate_tasks persona"
    by (auto simp: generate_shopping_tasks_def llm_generate_tasks_def)
  moreover have "\<forall>tds. client persona = JsonTasks tds \<longrightarrow>
      generate_shopping_tasks (Some client) True persona = Inr (map task_of_data tds)
      \<and> (map task_of_data tds \<noteq> [] \<longleftrightarrow> tds \<noteq> [])"
    by (simp add: generate_shopping_tasks_def llm_generate_tasks_def)
  ultimately show ?thesis by blast
qed

theorem generation_nonempty_witness:
  "interests lipstick_persona \<noteq> []
   \<and> (\<exists>tasks. rule_generate_tasks lipstick_persona = Inr tasks \<and> tasks \<noteq> [])
   \<and> generate_shopping_tasks (Some (\<lambda>p. LLMFailed ''timeout'')) True lipstick_persona
       = rule_generate_tasks lipstick_persona
   \<and> generate_shopping_tasks
         (Some (\<lambda>p. JsonTasks
            [\<lparr>td_task_name = Some ''Try a lipstick'', td_description = None,
              td_expected_functions = None, td_success_criteria = None,
              td_emotional_journey = None\<rparr>]))
         True lipstick_persona
       = Inr [\<lparr>task_name = ''Try a lipstick'', description = ''Complete shopping goal'',
               expected_functions = [''search_products''],
               success_criteria = ''Task completed'',
               emotional_journey = [''curious'']\<rparr>]"
proof -
  have ne: "interests lipstick_persona \<noteq> []"
    by (simp add: lipstick_persona_def)
  note failing = generation_nonempty[OF ne, where client = "\<lambda>p. LLMFailed ''timeout''"
      and available = True]
  note answering = generation_nonempty[OF ne, where client = "\<lambda>p. JsonTasks
            [\<lparr>td_task_name = Some ''Try a lipstick'', td_description = None,
              td_expected_functions = None, td_success_criteria = None,
              td_emotional_journey = None\<rparr>]" and available = True]
  from failing have one: "\<exists>tasks. rule_generate_tasks lipstick_persona = Inr tasks \<and> tasks \<noteq> []"
    by blast
  from failing
  have two: "generate_shopping_tasks (Some (\<lambda>p. LLMFailed ''timeout'')) True lipstick_persona
       = rule_generate_tasks lipstick_persona"
    by blast
  from answering
  have "generate_shopping_tasks
         (Some (\<lambda>p. JsonTasks
            [\<lparr>td_task_name = Some ''Try a lipstick'', td_description = None,
              td_expected_functions = None, td_success_criteria = None,
              td_emotional_journey = None\<rparr>]))
         True lipstick_persona
       = Inr (map task_of_data
            [\<lparr>td_task_name = Some ''Try a lipstick'', td_description = None,
              td_expected_functions = None, td_success_criteria = None,
              td_emotional_journey = None\<rparr>])"
    by blast
  then have three: "generate_shopping_tasks
         (Some (\<lambda>p. JsonTasks
            [\<lparr>td_task_name = Some ''Try a lipstick'', td_description = None,
              td_expected_functions = None, td_success_criteria = None,
              td_emotional_journey = None\<rparr>]))
         True lipstick_persona
       = Inr [\<lparr>task_name = ''Try a lipstick'', description = ''Complete shopping goal'',
               expected_functions = [''search_products''],
               success_criteria = ''Task completed'',
               emotional_journey = [''curious'']\<rparr>]"
    by (simp add: task_of_data_def get_default_def)
  from ne one two three show ?thesis by blast
qed

text \<open>
  The claim as it was written fails on the text-generation path: a reply whose JSON
  object lists no task is returned as it is, an empty sequence of Tasks.
\<close>

theorem generation_nonempty_counterexample:
  "interests lipstick_persona \<noteq> []
   \<and> generate_shopping_tasks (Some (\<lambda>p. JsonTasks [])) True lipstick_persona = Inr []"
  by (simp add: generate_shopping_tasks_def llm_generate_tasks_def lipstick_persona_def)

section \<open>The end-to-end scenario\<close>

lemma dispatch_search_ok:
  assumes "interests p @ shopping_goals p \<noteq> []"
    and "\<forall>t w. fst (search_box b t w) = Returns ()"
  shows "\<exists>a'. dispatch b p ''search_products'' a = Dispatched Succeeded a'
     \<and> actions a' = actions a + 1 \<and> success a' = success a + 1
     \<and> cart_items a' = cart_items a \<and> current_products a' = current_products a"
proof -
  obtain i w1 where r: "random_index b (world a) = (i, w1)"
    by fastforce
  define search_term where
    "search_term = (case fst (get_intelligent_search_term b p (world a)) of
        Returns x \<Rightarrow> x | Raises e \<Rightarrow> [])"
  from assms(1) r have g: "get_intelligent_search_term b p (world a) = (Returns search_term, w1)"
    by (simp add: get_intelligent_search_term_def random_choice_def Let_def search_term_def)
  obtain x w2 where s: "search_box b search_term w1 = (x, w2)"
    by fastforce
  with assms(2) have x: "x = Returns ()"
    by (metis fst_conv)
  from g s x show ?thesis
    by (simp add: dispatch_def search_products_def update_stats_fields)
qed

lemma dispatch_extract_one:
  assumes "\<forall>w. fst (find_product_cards b w) = Returns [c]"
    and "is_displayed c = Returns True"
    and "name_text c = Returns nm"
    and "price_match c = Returns (Some amount)"
    and "decision_style p \<noteq> ''price_focused''"
  shows "\<exists>r a' item. dispatch b p ''extract_products'' a = Dispatched r a' \<and> res_success r
     \<and> actions a' = actions a \<and> success a' = success a
     \<and> cart_items a' = cart_items a \<and> current_products a' = [item]
     \<and> p_price item = int amount"
proof -
  obtain x w1 where f: "find_product_cards b (world a) = (x, w1)"
    by fastforce
  with assms(1) have x: "x = Returns [c]"
    by (metis fst_conv)
  from f x assms(2-5) show ?thesis
    by (simp add: dispatch_def extract_products_def Let_def)
qed

lemma dispatch_hover_ok:
  assumes "current_products a = [item]"
    and "p_price item \<le> snd (budget_range p)"
    and "\<forall>h w. fst (hover_and_click b h w) = Returns True"
  shows "\<exists>a'. dispatch b p ''hover_add_to_cart'' a = Dispatched Succeeded a'
     \<and> actions a' = actions a + 1 \<and> success a' = success a + 1
     \<and> cart_items a' = cart_items a + 1"
proof -
  obtain x w1 where h: "hover_and_click b (p_element item) (world a) = (x, w1)"
    by fastforce
  with assms(3) have x: "x = Returns True"
    by (metis fst_conv)
  from h x assms(1,2) show ?thesis
    by (simp add: dispatch_def hover_add_to_cart_def py_index_def update_stats_fields)
qed

text \<open>
  C4, as the code has it. For a persona with the decision style quick-impulsive, the
  budget range (500, 5000), the one interest lipstick and no trait that mentions a
  budget, rule-based generation yields exactly one Task, named Quick Product
  Discovery, with the operations search, extract, quick-add. Executed in a fresh
  session against a page-interaction layer whose search and hover succeed and whose
  page shows one readable card priced 1200, the Task dispatches three operations and
  ends with a cart count of 1, 2 successes and 2 attempts: extract succeeds and is not
  counted.
\<close>

theorem end_to_end_scenario:
  assumes "decision_style p = ''quick_impulsive''"
    and "budget_range p = (500, 5000)"
    and "interests p = [''lipstick'']"
    and "\<not> py_in ''budget'' (lower (join '' '' (personality_traits p)))"
    and "\<forall>t w. fst (search_box b t w) = Returns ()"
    and "\<forall>w. fst (find_product_cards b w) = Returns [c]"
    and "is_displayed c = Returns True"
    and "name_text c = Returns nm"
    and "price_match c = Returns (Some 1200)"
    and "\<forall>h w. fst (hover_and_click b h w) = Returns True"
  shows "\<exists>t a out. rule_generate_tasks p = Inr [t]
     \<and> task_name t = ''Quick Product Discovery''
     \<and> expected_functions t = [''search_products'', ''extract_products'', ''hover_add_to_cart'']
     \<and> run_tasks b p [t] (init_automation w) = Inr (a, out)
     \<and> dispatched_count b p (expected_functions t) (init_automation w) = 3
     \<and> cart_items a = 1 \<and> success a = 2 \<and> actions a = 2"
proof -
  define a0 :: "'a TiraAutomation" where "a0 = init_automation w"
  have z: "actions a0 = 0 \<and> success a0 = 0 \<and> cart_items a0 = 0"
    by (simp add: a0_def init_automation_def)
  from assms(3) have ne: "interests p @ shopping_goals p \<noteq> []"
    by simp
  from dispatch_search_ok[OF ne assms(5), of a0] obtain a1
    where d1: "dispatch b p ''search_products'' a0 = Dispatched Succeeded a1"
      and c1: "actions a1 = actions a0 + 1" "success a1 = success a0 + 1"
        "cart_items a1 = cart_items a0"
    by blast
  from assms(1) have calm: "decision_style p \<noteq> ''price_focused''"
    by simp
  from dispatch_extract_one[OF assms(6-9) calm, of a1] obtain r a2 item
    where d2: "dispatch b p ''extract_products'' a1 = Dispatched r a2"
      and ok: "res_success r"
      and c2: "actions a2 = actions a1" "success a2 = success a1"
        "cart_items a2 = cart_items a1"
      and ps: "current_products a2 = [item]" "p_price item = int 1200"
    by blast
  from ps(2) assms(2) have within: "p_price item \<le> snd (budget_range p)"
    by simp
  from dispatch_hover_ok[OF ps(1) within assms(10)] obtain a3
    where d3: "dispatch b p ''hover_add_to_cart'' a2 = Dispatched Succeeded a3"
      and c3: "actions a3 = actions a2 + 1" "success a3 = success a2 + 1"
        "cart_items a3 = cart_items a2 + 1"
    by blast
  have run: "execute_task b p [''search_products'', ''extract_products'', ''hover_add_to_cart''] a0
      = (a3, [Executing ''search_products'', Executing ''extract_products'',
              Executing ''hover_add_to_cart''])"
    using d1 d2 d3 ok by (simp add: report_def)
  have cnt: "dispatched_count b p
      [''search_products'', ''extract_products'', ''hover_add_to_cart''] a0 = 3"
    using d1 d2 d3 by simp
  have gen: "rule_generate_tasks p =
      Inr [\<lparr>task_name = ''Quick Product Discovery'',
            description = ''Find and quickly purchase lipstick items'',
            expected_functions =
              [''search_products'', ''extract_products'', ''hover_add_to_cart''],
            success_criteria = ''At least 1 item added to cart'',
            emotional_journey = [''excited'', ''satisfied'']\<rparr>]"
    using assms(1,3,4) by (simp add: rule_generate_tasks_def)
  from gen run cnt z c1 c2 c3 show ?thesis
    by (simp add: a0_def)
qed

theorem end_to_end_scenario_witness:
  "\<exists>t a out. rule_generate_tasks lipstick_persona = Inr [t]
     \<and> task_name t = ''Quick Product Discovery''
     \<and> expected_functions t = [''search_products'', ''extract_products'', ''hover_add_to_cart'']
     \<and> run_tasks (mock_browser [priced_card 1200] 0) lipstick_persona [t] (init_automation ())
         = Inr (a, out)
     \<and> dispatched_count (mock_browser [priced_card 1200] 0) lipstick_persona
         (expected_functions t) (init_automation ()) = 3
     \<and> cart_items a = 1 \<and> success a = 2 \<and> actions a = 2"
proof -
  have style: "decision_style lipstick_persona = ''quick_impulsive''"
    and budget: "budget_range lipstick_persona = (500, 5000)"
    and lipstick: "interests lipstick_persona = [''lipstick'']"
    by (simp_all add: lipstick_persona_def)
  have traits: "\<not> py_in ''budget'' (lower (join '' '' (personality_traits lipstick_persona)))"
    by (simp add: lipstick_persona_def lower_def lower_char_def ascii_uppercase_def
        ascii_lowercase_def)
  have search: "\<forall>t w. fst (search_box (mock_browser [priced_card 1200] 0) t w) = Returns ()"
    and cards: "\<forall>w. fst (find_product_cards (mock_browser [priced_card 1200] 0) w)
        = Returns [priced_card 1200]"
    and hover: "\<forall>h w. fst (hover_and_click (mock_browser [priced_card 1200] 0) h w)
        = Returns True"
    by (simp_all add: mock_browser_def)
  have shown: "is_displayed (priced_card 1200) = Returns True"
    and named: "name_text (priced_card 1200) = Returns ''Matte Lipstick''"
    and priced: "price_match (priced_card 1200) = Returns (Some 1200)"
    by (simp_all add: priced_card_def)
  show ?thesis
    by (rule end_to_end_scenario[OF style budget lipstick traits search cards shown named
        priced hover])
qed

text \<open>
  The claim as it was written fails in its last number: the scenario ends with 2
  successes, not 3.
\<close>

theorem end_to_end_scenario_counterexample:
  "rule_generate_tasks lipstick_persona =
      Inr [\<lparr>task_name = ''Quick Product Discovery'',
            description = ''Find and quickly purchase lipstick items'',
            expected_functions =
              [''search_products'', ''extract_products'', ''hover_add_to_cart''],
            success_criteria = ''At least 1 item added to cart'',
            emotional_journey = [''excited'', ''satisfied'']\<rparr>]
   \<and> run_tasks (mock_browser [priced_card 1200] 0) lipstick_persona
        [\<lparr>task_name = ''Quick Product Discovery'',
          description = ''Find and quickly purchase lipstick items'',
          expected_functions =
            [''search_products'', ''extract_products'', ''hover_add_to_cart''],
          success_criteria = ''At least 1 item added to cart'',
          emotional_journey = [''excited'', ''satisfied'']\<rparr>]
        (init_automation ())
      = Inr (\<lparr>world = (), current_products = [priced_product 1200],
               actions = 2, success = 2, cart_items = 1\<rparr>,
             [Executing ''search_products'', Executing ''extract_products'',
              Executing ''hover_add_to_cart''])"
  by code_simp

section \<open>The loop of a Task\<close>

lemma executed_names_append:
  "executed_names (xs @ ys) = executed_names xs @ executed_names ys"
  by (induction xs rule: executed_names.induct) simp_all

lemma executed_names_report: "executed_names (report f r) = []"
  by (simp add: report_def)

lemma dispatch_complete_session:
  "dispatch b p ''complete_session'' a = Completed a"
  by (simp add: dispatch_def complete_session_def)

lemma execute_task_stops_at_complete_session:
  "execute_task b p (pre @ ''complete_session'' # post) a
     = execute_task b p (pre @ [''complete_session'']) a"
proof (induction pre arbitrary: a)
  case Nil
  show ?case by (simp add: dispatch_complete_session)
next
  case (Cons f pre)
  show ?case
    by (cases "dispatch b p f a") (simp_all add: Cons.IH)
qed

lemma executed_names_prefix:
  "prefix (executed_names (snd (execute_task b p fs a))) fs"
proof (induction fs arbitrary: a)
  case Nil
  show ?case by simp
next
  case (Cons f fs)
  show ?case
  proof (cases "dispatch b p f a")
    case (Dispatched r a1)
    with Cons.IH[of a1] show ?thesis
      by (auto simp: executed_names_append executed_names_report split: prod.splits)
  next
    case (Completed a1)
    then show ?thesis by simp
  next
    case Skipped
    with Cons.IH[of a] show ?thesis
      by (auto split: prod.splits)
  next
    case (Raised e a1)
    then show ?thesis by simp
  qed
qed

lemma executed_names_all:
  assumes "interests p @ shopping_goals p \<noteq> []"
    and "''complete_session'' \<notin> set fs"
  shows "executed_names (snd (execute_task b p fs a)) = fs"
  using assms(2)
proof (induction fs arbitrary: a)
  case Nil
  show ?case by simp
next
  case (Cons f fs)
  from Cons.prems have rest: "''complete_session'' \<notin> set fs" and f: "f \<noteq> ''complete_session''"
    by auto
  show ?case
  proof (cases "dispatch b p f a")
    case (Dispatched r a1)
    with Cons.IH[OF rest, of a1] show ?thesis
      by (auto simp: executed_names_append executed_names_report split: prod.splits)
  next
    case (Completed a1)
    with dispatch_Completed[OF Completed] f show ?thesis by simp
  next
    case Skipped
    with Cons.IH[OF rest, of a] show ?thesis
      by (auto split: prod.splits)
  next
    case (Raised e a1)
    with dispatch_Raised[OF Raised] assms(1) show ?thesis by simp
  qed
qed

lemma executed_names_until_complete_session:
  assumes "interests p @ shopping_goals p \<noteq> []"
    and "''complete_session'' \<notin> set pre"
  shows "executed_names (snd (execute_task b p (pre @ [''complete_session'']) a))
     = pre @ [''complete_session'']"
  using assms(2)
proof (induction pre arbitrary: a)
  case Nil
  show ?case by (simp add: dispatch_complete_session)
next
  case (Cons f pre)
  from Cons.prems have rest: "''complete_session'' \<notin> set pre" and f: "f \<noteq> ''complete_session''"
    by auto
  show ?case
  proof (cases "dispatch b p f a")
    case (Dispatched r a1)
    with Cons.IH[OF rest, of a1] show ?thesis
      by (auto simp: executed_names_append executed_names_report split: prod.splits)
  next
    case (Completed a1)
    with dispatch_Completed[OF Completed] f show ?thesis by simp
  next
    case Skipped
    with Cons.IH[OF rest, of a] show ?thesis
      by (auto split: prod.splits)
  next
    case (Raised e a1)
    with dispatch_Raised[OF Raised] assms(1) show ?thesis by simp
  qed
qed

lemma run_tasks_completes:
  assumes "interests p @ shopping_goals p \<noteq> []"
    and "\<forall>w. fst (refresh b w) = Returns ()"
  shows "\<exists>a' out. run_tasks b p tasks a = Inr (a', out)
     \<and> (list_all (\<lambda>t. ''complete_session'' \<notin> set (expected_functions t)) tasks
        \<longrightarrow> executed_names out = concat (map expected_functions tasks))"
proof (induction tasks arbitrary: a)
  case Nil
  show ?case by simp
next
  case (Cons t ts)
  obtain a1 out1 where e: "execute_task b p (expected_functions t) a = (a1, out1)"
    by fastforce
  have n1: "''complete_session'' \<notin> set (expected_functions t)
      \<Longrightarrow> executed_names out1 = expected_functions t"
    using executed_names_all[OF assms(1), of "expected_functions t" b a] e by simp
  show ?case
  proof (cases "ts = []")
    case True
    with e n1 show ?thesis
      by simp
  next
    case False
    obtain x w where rf: "refresh b (world a1) = (x, w)"
      by fastforce
    with assms(2) have x: "x = Returns ()"
      by (metis fst_conv)
    from Cons.IH[of "a1\<lparr>world := w\<rparr>"] obtain a2 out2
      where r: "run_tasks b p ts (a1\<lparr>world := w\<rparr>) = Inr (a2, out2)"
        and n2: "list_all (\<lambda>t. ''complete_session'' \<notin> set (expected_functions t)) ts
        \<longrightarrow> executed_names out2 = concat (map expected_functions ts)"
      by blast
    from e False rf x r have run: "run_tasks b p (t # ts) a = Inr (a2, out1 @ out2)"
      by simp
    from n1 n2
    have "list_all (\<lambda>t. ''complete_session'' \<notin> set (expected_functions t)) (t # ts)
        \<longrightarrow> executed_names (out1 @ out2) = concat (map expected_functions (t # ts))"
      by (simp add: executed_names_append)
    with run show ?thesis
      by simp
  qed
qed

lemma uncounted_failure:
  assumes "dispatch b p f a = Dispatched r a'"
    and "\<not> res_success r"
    and "\<not> counted b p f a"
  shows "(f = ''extract_products'' \<and> r = NoProducts)
     \<or> (f = ''hover_add_to_cart'' \<and> a' = a
          \<and> (r = Failed ''Invalid product index'' \<or> r = Failed ''Over budget''))
     \<or> (f = ''remove_from_cart'' \<and> r = Failed ''No items to remove'')"
proof -
  from assms(3) have f: "f \<noteq> ''search_products''" "f \<noteq> ''view_cart''"
    by (auto simp: counted_def)
  consider "f = ''extract_products''" | "f = ''hover_add_to_cart''"
    | "f = ''remove_from_cart''" | "f = ''complete_session''"
    | "f \<noteq> ''extract_products''" "f \<noteq> ''hover_add_to_cart''"
      "f \<noteq> ''remove_from_cart''" "f \<noteq> ''complete_session''"
    by blast
  then show ?thesis
  proof cases
    case 1
    with assms(1,2) show ?thesis
      by (auto simp: dispatch_def extract_products_def Let_def
          split: prod.splits outcome.splits option.splits if_splits)
  next
    case 2
    with assms(1) have h: "hover_add_to_cart b p 0 a = (r, a')"
      by (auto simp: dispatch_def split: prod.splits)
    from assms(3) 2 hover_add_to_cart_attempts[OF h] show ?thesis
      by (cases "current_products a") (auto simp: counted_def py_index_def)
  next
    case 3
    with assms(1) have h: "remove_from_cart b p a = (r, a')"
      by (auto simp: dispatch_def split: prod.splits)
    from assms(3) 3 remove_from_cart_attempts[OF h] show ?thesis
      by (auto simp: counted_def)
  next
    case 4
    with assms(1) show ?thesis
      by (simp add: dispatch_def complete_session_def)
  next
    case 5
    with assms(1) f show ?thesis
      by (simp add: dispatch_def)
  qed
qed

text \<open>
  C5, as the code has it, for every persona with an interest or a goal. No exception
  reaches the handler of the loop: every failure of an operation comes back in its
  result. Such a failure is contained to the operation: a line reports it, the
  successes stay as they were, and the loop goes on with the next operation of the
  same Task, so that every operation name of a Task without complete-session gets
  its pass through the loop, whatever fails. The attempts record the failure, growing
  by 1, except for a failed extract and for the three early returns
  \<open>Invalid product index\<close>, \<open>Over budget\<close> and \<open>No items to remove\<close>, which change
  no counter. No failing operation ends the session: as long as the refresh between
  Tasks does not raise, the session runs all its Tasks to the end, each from the
  automation the Task before it left.
\<close>

theorem failure_containment:
  assumes "interests p @ shopping_goals p \<noteq> []"
  shows "(\<forall>e a'. dispatch b p f a \<noteq> Raised e a')
   \<and> (\<forall>r a'. dispatch b p f a = Dispatched r a' \<longrightarrow>
       execute_task b p (f # rest) a =
         (case execute_task b p rest a' of
            (a'', out) \<Rightarrow> (a'', Executing f # report f r @ out))
       \<and> (\<not> res_success r \<longrightarrow>
            report f r = [FunctionFailed f (res_error r)]
            \<and> success a' = success a
            \<and> actions a' = actions a + (if counted b p f a then 1 else 0)
            \<and> (counted b p f a
                \<or> (f = ''extract_products'' \<and> r = NoProducts)
                \<or> (f = ''hover_add_to_cart'' \<and> a' = a
                     \<and> (r = Failed ''Invalid product index'' \<or> r = Failed ''Over budget''))
                \<or> (f = ''remove_from_cart'' \<and> r = Failed ''No items to remove''))))
   \<and> (''complete_session'' \<notin> set fs \<longrightarrow>
       executed_names (snd (execute_task b p fs a)) = fs)
   \<and> ((\<forall>w. fst (refresh b w) = Returns ()) \<longrightarrow>
       (\<exists>a' out. run_tasks b p tasks a = Inr (a', out)
          \<and> (list_all (\<lambda>t. ''complete_session'' \<notin> set (expected_functions t)) tasks
             \<longrightarrow> executed_names out = concat (map expected_functions tasks))))
   \<and> (ts \<noteq> [] \<and> refresh b (world (fst (execute_task b p (expected_functions t) a)))
         = (Returns (), w) \<longrightarrow>
       run_tasks b p (t # ts) a =
         (case run_tasks b p ts
                 ((fst (execute_task b p (expected_functions t) a))\<lparr>world := w\<rparr>) of
            Inl e \<Rightarrow> Inl e
          | Inr (a2, out2) \<Rightarrow>
              Inr (a2, snd (execute_task b p (expected_functions t) a) @ out2)))"
proof -
  have zero: "\<forall>e a'. dispatch b p f a \<noteq> Raised e a'"
  proof (intro allI notI)
    fix e a'
    assume "dispatch b p f a = Raised e a'"
    from dispatch_Raised[OF this] assms show False
      by simp
  qed
  have one: "\<forall>r a'. dispatch b p f a = Dispatched r a' \<longrightarrow>
       execute_task b p (f # rest) a =
         (case execute_task b p rest a' of
            (a'', out) \<Rightarrow> (a'', Executing f # report f r @ out))
       \<and> (\<not> res_success r \<longrightarrow>
            report f r = [FunctionFailed f (res_error r)]
            \<and> success a' = success a
            \<and> actions a' = actions a + (if counted b p f a then 1 else 0)
            \<and> (counted b p f a
                \<or> (f = ''extract_products'' \<and> r = NoProducts)
                \<or> (f = ''hover_add_to_cart'' \<and> a' = a
                     \<and> (r = Failed ''Invalid product index'' \<or> r = Failed ''Over budget''))
                \<or> (f = ''remove_from_cart'' \<and> r = Failed ''No items to remove'')))"
  proof (intro allI impI conjI)
    fix r a'
    assume d: "dispatch b p f a = Dispatched r a'"
    then show "execute_task b p (f # rest) a =
         (case execute_task b p rest a' of
            (a'', out) \<Rightarrow> (a'', Executing f # report f r @ out))"
      by simp
    show "actions a' = actions a + (if counted b p f a then 1 else 0)"
      by (rule dispatch_attempts[OF d])
    assume n: "\<not> res_success r"
    then show "report f r = [FunctionFailed f (res_error r)]"
      by (simp add: report_def)
    from d n show "success a' = success a"
      by (rule dispatch_success)
    show "counted b p f a
                \<or> (f = ''extract_products'' \<and> r = NoProducts)
                \<or> (f = ''hover_add_to_cart'' \<and> a' = a
                     \<and> (r = Failed ''Invalid product index'' \<or> r = Failed ''Over budget''))
                \<or> (f = ''remove_from_cart'' \<and> r = Failed ''No items to remove'')"
    proof (cases "counted b p f a")
      case True
      then show ?thesis by (rule disjI1)
    next
      case False
      from uncounted_failure[OF d n False] show ?thesis by (rule disjI2)
    qed
  qed
  have two: "''complete_session'' \<notin> set fs \<longrightarrow>
       executed_names (snd (execute_task b p fs a)) = fs"
    by (rule impI) (rule executed_names_all[OF assms])
  have four: "(\<forall>w. fst (refresh b w) = Returns ()) \<longrightarrow>
       (\<exists>a' out. run_tasks b p tasks a = Inr (a', out)
          \<and> (list_all (\<lambda>t. ''complete_session'' \<notin> set (expected_functions t)) tasks
             \<longrightarrow> executed_names out = concat (map expected_functions tasks)))"
    by (rule impI) (rule run_tasks_completes[OF assms])
  have five: "ts \<noteq> [] \<and> refresh b (world (fst (execute_task b p (expected_functions t) a)))
         = (Returns (), w) \<longrightarrow>
       run_tasks b p (t # ts) a =
         (case run_tasks b p ts
                 ((fst (execute_task b p (expected_functions t) a))\<lparr>world := w\<rparr>) of
            Inl e \<Rightarrow> Inl e
          | Inr (a2, out2) \<Rightarrow>
              Inr (a2, snd (execute_task b p (expected_functions t) a) @ out2))"
    by (cases "execute_task b p (expected_functions t) a") (auto split: sum.splits)
  show ?thesis
    by (rule conjI[OF zero conjI[OF one conjI[OF two conjI[OF four five]]]])
qed

theorem failure_containment_witness:
  "interests lipstick_persona @ shopping_goals lipstick_persona \<noteq> []
   \<and> dispatch (mock_browser [] 0) lipstick_persona ''hover_add_to_cart'' (shelf 6000)
     = Dispatched (Failed ''Over budget'') (shelf 6000)
   \<and> execute_task (mock_browser [] 0) lipstick_persona [''hover_add_to_cart'', ''view_cart'']
       (shelf 6000)
     = ((shelf 6000)\<lparr>actions := 1, success := 1\<rparr>,
        [Executing ''hover_add_to_cart'',
         FunctionFailed ''hover_add_to_cart'' ''Over budget'',
         Executing ''view_cart''])
   \<and> dispatch failing_browser lipstick_persona ''view_cart'' (init_automation ())
     = Dispatched (Failed ''timeout'') ((init_automation ())\<lparr>actions := 1\<rparr>)
   \<and> counted failing_browser lipstick_persona ''view_cart'' (init_automation ())
   \<and> execute_task failing_browser lipstick_persona [''view_cart'', ''extract_products'']
       (init_automation ())
     = ((init_automation ())\<lparr>actions := 1\<rparr>,
        [Executing ''view_cart'', FunctionFailed ''view_cart'' ''timeout'',
         Executing ''extract_products'',
         FunctionFailed ''extract_products'' ''Unknown error''])"
proof -
  have ne: "interests lipstick_persona @ shopping_goals lipstick_persona \<noteq> []"
    by (simp add: lipstick_persona_def)
  note budget = failure_containment[OF ne, where b = "mock_browser [] 0"
      and f = "''hover_add_to_cart''" and a = "shelf 6000" and rest = "[''view_cart'']"]
  note timeout = failure_containment[OF ne, where b = failing_browser
      and f = "''view_cart''" and a = "init_automation ()"
      and rest = "[''extract_products'']"]
  have d: "dispatch (mock_browser [] 0) lipstick_persona ''hover_add_to_cart'' (shelf 6000)
     = Dispatched (Failed ''Over budget'') (shelf 6000)"
    by (simp add: dispatch_def hover_add_to_cart_def shelf_products py_index_def
        priced_product_def lipstick_persona_def)
  have v: "execute_task (mock_browser [] 0) lipstick_persona [''view_cart''] (shelf 6000)
     = ((shelf 6000)\<lparr>actions := 1, success := 1\<rparr>, [Executing ''view_cart''])"
    by (simp add: dispatch_def view_cart_def mock_browser_def update_stats_def shelf_counters
        report_def)
  from budget d
  have "execute_task (mock_browser [] 0) lipstick_persona [''hover_add_to_cart'', ''view_cart'']
       (shelf 6000)
     = (case execute_task (mock_browser [] 0) lipstick_persona [''view_cart''] (shelf 6000) of
          (a'', out) \<Rightarrow>
            (a'', Executing ''hover_add_to_cart'' #
                  report ''hover_add_to_cart'' (Failed ''Over budget'') @ out))
     \<and> report ''hover_add_to_cart'' (Failed ''Over budget'')
         = [FunctionFailed ''hover_add_to_cart'' (res_error (Failed ''Over budget''))]"
    by auto
  with v have one: "execute_task (mock_browser [] 0) lipstick_persona
       [''hover_add_to_cart'', ''view_cart''] (shelf 6000)
     = ((shelf 6000)\<lparr>actions := 1, success := 1\<rparr>,
        [Executing ''hover_add_to_cart'',
         FunctionFailed ''hover_add_to_cart'' ''Over budget'',
         Executing ''view_cart''])"
    by simp
  have t: "dispatch failing_browser lipstick_persona ''view_cart'' (init_automation ())
     = Dispatched (Failed ''timeout'') ((init_automation ())\<lparr>actions := 1\<rparr>)"
    by (simp add: dispatch_def view_cart_def failing_browser_def update_stats_def
        init_automation_def)
  have c: "counted failing_browser lipstick_persona ''view_cart'' (init_automation ())"
    by (simp add: counted_def)
  have x: "execute_task failing_browser lipstick_persona [''extract_products'']
       ((init_automation ())\<lparr>actions := 1\<rparr>)
     = ((init_automation ())\<lparr>actions := 1\<rparr>,
        [Executing ''extract_products'',
         FunctionFailed ''extract_products'' ''Unknown error''])"
    by (simp add: dispatch_def extract_products_def failing_browser_def init_automation_def
        report_def)
  from timeout t
  have "execute_task failing_browser lipstick_persona [''view_cart'', ''extract_products'']
       (init_automation ())
     = (case execute_task failing_browser lipstick_persona [''extract_products'']
               ((init_automation ())\<lparr>actions := 1\<rparr>) of
          (a'', out) \<Rightarrow>
            (a'', Executing ''view_cart'' # report ''view_cart'' (Failed ''timeout'') @ out))
     \<and> report ''view_cart'' (Failed ''timeout'')
         = [FunctionFailed ''view_cart'' (res_error (Failed ''timeout''))]"
    by auto
  with x have two: "execute_task failing_browser lipstick_persona
       [''view_cart'', ''extract_products''] (init_automation ())
     = ((init_automation ())\<lparr>actions := 1\<rparr>,
        [Executing ''view_cart'', FunctionFailed ''view_cart'' ''timeout'',
         Executing ''extract_products'',
         FunctionFailed ''extract_products'' ''Unknown error''])"
    by simp
  from ne d one t c two show ?thesis by blast
qed

text \<open>
  The claim as it was written fails in what it says of the counters: a failure need
  not be recorded. On a page whose one product is over budget, the Task extract,
  quick-add ends with a reported failure of quick-add and the attempts at 0. On a
  page-interaction layer whose calls raise, the Task that consists of extract ends
  with a reported failure of extract and the attempts at 0.
\<close>

theorem failure_containment_counterexample:
  "execute_task (mock_browser [priced_card 6000] 0) lipstick_persona
       [''extract_products'', ''hover_add_to_cart''] (init_automation ())
     = (\<lparr>world = (), current_products = [priced_product 6000],
         actions = 0, success = 0, cart_items = 0\<rparr>,
        [Executing ''extract_products'', Executing ''hover_add_to_cart'',
         FunctionFailed ''hover_add_to_cart'' ''Over budget''])
   \<and> execute_task failing_browser lipstick_persona [''extract_products'']
       (init_automation ())
     = (\<lparr>world = (), current_products = [], actions = 0, success = 0, cart_items = 0\<rparr>,
        [Executing ''extract_products'',
         FunctionFailed ''extract_products'' ''Unknown error''])"
  by code_simp

text \<open>
  C7. Executing complete-session ends the Task at once: it changes nothing in the
  automation, and no operation listed after it is executed, so the Task runs as if its
  list ended there. The session is the same as with the shortened list, and it goes on
  with the next Task, from the automation the Task left and the refreshed page.
\<close>

theorem complete_session_ends_task:
  "execute_task b p (''complete_session'' # post) a = (a, [Executing ''complete_session''])
   \<and> execute_task b p (pre @ ''complete_session'' # post) a
       = execute_task b p (pre @ [''complete_session'']) a
   \<and> prefix (executed_names (snd (execute_task b p (pre @ ''complete_session'' # post) a)))
       (pre @ [''complete_session''])
   \<and> (interests p @ shopping_goals p \<noteq> [] \<and> ''complete_session'' \<notin> set pre \<longrightarrow>
        executed_names (snd (execute_task b p (pre @ ''complete_session'' # post) a))
          = pre @ [''complete_session''])
   \<and> run_tasks b p (t\<lparr>expected_functions := pre @ ''complete_session'' # post\<rparr> # ts) a
       = run_tasks b p (t\<lparr>expected_functions := pre @ [''complete_session'']\<rparr> # ts) a
   \<and> (ts \<noteq> [] \<and> refresh b (world a) = (Returns (), w) \<longrightarrow>
        run_tasks b p (t\<lparr>expected_functions := ''complete_session'' # post\<rparr> # ts) a
          = (case run_tasks b p ts (a\<lparr>world := w\<rparr>) of
               Inl e \<Rightarrow> Inl e
             | Inr (a2, out2) \<Rightarrow> Inr (a2, Executing ''complete_session'' # out2)))"
proof -
  have one: "execute_task b p (''complete_session'' # post) a
      = (a, [Executing ''complete_session''])"
    by (simp add: dispatch_complete_session)
  have two: "execute_task b p (pre @ ''complete_session'' # post) a
       = execute_task b p (pre @ [''complete_session'']) a"
    by (rule execute_task_stops_at_complete_session)
  have three: "prefix (executed_names (snd (execute_task b p (pre @ ''complete_session'' # post) a)))
       (pre @ [''complete_session''])"
    unfolding two by (rule executed_names_prefix)
  have four: "interests p @ shopping_goals p \<noteq> [] \<and> ''complete_session'' \<notin> set pre \<longrightarrow>
        executed_names (snd (execute_task b p (pre @ ''complete_session'' # post) a))
          = pre @ [''complete_session'']"
    unfolding two using executed_names_until_complete_session[of p pre b a] by blast
  have five: "run_tasks b p (t\<lparr>expected_functions := pre @ ''complete_session'' # post\<rparr> # ts) a
       = run_tasks b p (t\<lparr>expected_functions := pre @ [''complete_session'']\<rparr> # ts) a"
    by (simp add: two)
  have six: "ts \<noteq> [] \<and> refresh b (world a) = (Returns (), w) \<longrightarrow>
        run_tasks b p (t\<lparr>expected_functions := ''complete_session'' # post\<rparr> # ts) a
          = (case run_tasks b p ts (a\<lparr>world := w\<rparr>) of
               Inl e \<Rightarrow> Inl e
             | Inr (a2, out2) \<Rightarrow> Inr (a2, Executing ''complete_session'' # out2))"
    by (auto simp: dispatch_complete_session split: sum.splits)
  from one two three four five six show ?thesis by blast
qed

theorem complete_session_ends_task_witness:
  "execute_task (mock_browser [] 0) lipstick_persona
       [''search_products'', ''complete_session'', ''view_cart''] (init_automation ())
     = execute_task (mock_browser [] 0) lipstick_persona
       [''search_products'', ''complete_session''] (init_automation ())
   \<and> executed_names (snd (execute_task (mock_browser [] 0) lipstick_persona
       [''search_products'', ''complete_session'', ''view_cart''] (init_automation ())))
     = [''search_products'', ''complete_session'']
   \<and> run_tasks (mock_browser [] 0) lipstick_persona
       [\<lparr>task_name = ''First'', description = [],
         expected_functions = [''complete_session'', ''view_cart''],
         success_criteria = [], emotional_journey = []\<rparr>,
        \<lparr>task_name = ''Second'', description = [],
         expected_functions = [''view_cart''],
         success_criteria = [], emotional_journey = []\<rparr>]
       (init_automation ())
     = Inr ((init_automation ())\<lparr>actions := 1, success := 1\<rparr>,
            [Executing ''complete_session'', Executing ''view_cart''])"
proof -
  note mid = complete_session_ends_task[where b = "mock_browser [] 0" and p = lipstick_persona
      and pre = "[''search_products'']" and post = "[''view_cart'']"
      and a = "init_automation ()"]
  note first = complete_session_ends_task[where b = "mock_browser [] 0" and p = lipstick_persona
      and post = "[''view_cart'']" and a = "init_automation ()" and w = "()"
      and t = "\<lparr>task_name = ''First'', description = [],
         expected_functions = [], success_criteria = [], emotional_journey = []\<rparr>"
      and ts = "[\<lparr>task_name = ''Second'', description = [],
         expected_functions = [''view_cart''],
         success_criteria = [], emotional_journey = []\<rparr>]"]
  have ne: "interests lipstick_persona @ shopping_goals lipstick_persona \<noteq> []
      \<and> ''complete_session'' \<notin> set [''search_products'']"
    by (simp add: lipstick_persona_def)
  have one: "execute_task (mock_browser [] 0) lipstick_persona
       [''search_products'', ''complete_session'', ''view_cart''] (init_automation ())
     = execute_task (mock_browser [] 0) lipstick_persona
       [''search_products'', ''complete_session''] (init_automation ())"
    using mid unfolding append_Cons append_Nil by blast
  have two: "executed_names (snd (execute_task (mock_browser [] 0) lipstick_persona
       [''search_products'', ''complete_session'', ''view_cart''] (init_automation ())))
     = [''search_products'', ''complete_session'']"
    using mid ne unfolding append_Cons append_Nil by blast
  have rf: "[\<lparr>task_name = ''Second'', description = [],
         expected_functions = [''view_cart''],
         success_criteria = [], emotional_journey = []\<rparr>] \<noteq> []
      \<and> refresh (mock_browser [] 0) (world (init_automation ())) = (Returns (), ())"
    by (simp add: mock_browser_def)
  have lit: "\<lparr>task_name = ''First'', description = [],
         expected_functions = [], success_criteria = [], emotional_journey = []\<rparr>
       \<lparr>expected_functions := [''complete_session'', ''view_cart'']\<rparr>
     = \<lparr>task_name = ''First'', description = [],
         expected_functions = [''complete_session'', ''view_cart''],
         success_criteria = [], emotional_journey = []\<rparr>"
    by simp
  have second: "run_tasks (mock_browser [] 0) lipstick_persona
       [\<lparr>task_name = ''Second'', description = [],
         expected_functions = [''view_cart''],
         success_criteria = [], emotional_journey = []\<rparr>]
       ((init_automation ())\<lparr>world := ()\<rparr>)
     = Inr ((init_automation ())\<lparr>actions := 1, success := 1\<rparr>, [Executing ''view_cart''])"
    by (simp add: dispatch_def view_cart_def mock_browser_def update_stats_def
        init_automation_def report_def)
  from first rf
  have "run_tasks (mock_browser [] 0) lipstick_persona
       [\<lparr>task_name = ''First'', description = [],
          expected_functions = [], success_criteria = [], emotional_journey = []\<rparr>
        \<lparr>expected_functions := [''complete_session'', ''view_cart'']\<rparr>,
        \<lparr>task_name = ''Second'', description = [],
         expected_functions = [''view_cart''],
         success_criteria = [], emotional_journey = []\<rparr>]
       (init_automation ())
     = (case run_tasks (mock_browser [] 0) lipstick_persona
           [\<lparr>task_name = ''Second'', description = [],
             expected_functions = [''view_cart''],
             success_criteria = [], emotional_journey = []\<rparr>]
           ((init_automation ())\<lparr>world := ()\<rparr>) of
          Inl e \<Rightarrow> Inl e
        | Inr (a2, out2) \<Rightarrow> Inr (a2, Executing ''complete_session'' # out2))"
    by blast
  then have three: "run_tasks (mock_browser [] 0) lipstick_persona
       [\<lparr>task_name = ''First'', description = [],
         expected_functions = [''complete_session'', ''view_cart''],
         success_criteria = [], emotional_journey = []\<rparr>,
        \<lparr>task_name = ''Second'', description = [],
         expected_functions = [''view_cart''],
         success_criteria = [], emotional_journey = []\<rparr>]
       (init_automation ())
     = Inr ((init_automation ())\<lparr>actions := 1, success := 1\<rparr>,
            [Executing ''complete_session'', Executing ''view_cart''])"
    unfolding lit second by (simp only: sum.case prod.case)
  from one two three show ?thesis by blast
qed

end
